theory Spec2Isabelle
  imports Main "HOL-Library.Sublist" "HOL-Library.AList"
begin

section \<open>Python strings\<close>

text \<open>
  A Python \<open>str\<close> is modelled as a \<open>string\<close>: one \<open>char\<close> per character, the
  characters being the code points below 256. \<open>str.strip()\<close> without argument removes
  the characters for which \<open>str.isspace()\<close> holds; below 256 these are the code points
  9 to 13, 28 to 32, 133 and 160.
\<close>

definition py_isspace :: "char \<Rightarrow> bool" where
  "py_isspace c =
     (let n = (of_char c :: nat)
      in (9 \<le> n \<and> n \<le> 13) \<or> (28 \<le> n \<and> n \<le> 32) \<or> n = 133 \<or> n = 160)"

definition lstrip :: "string \<Rightarrow> string" where
  "lstrip s = dropWhile py_isspace s"

definition rstrip :: "string \<Rightarrow> string" where
  "rstrip s = rev (dropWhile py_isspace (rev s))"

definition strip :: "string \<Rightarrow> string" where
  "strip s = rstrip (lstrip s)"

definition startswith :: "string \<Rightarrow> string \<Rightarrow> bool" where
  "startswith s p = prefix p s"

definition endswith :: "string \<Rightarrow> string \<Rightarrow> bool" where
  "endswith s p = suffix p s"

section \<open>The query sanitizer: \<open>RAGSystem._clean_sql_query\<close>\<close>

text \<open>
  \<^verbatim>\<open>
  sql_query = sql_query.strip()
  if sql_query.startswith("```sql"):
      sql_query = sql_query[6:].strip()
  elif sql_query.startswith("```"):
      sql_query = sql_query[3:].strip()
  if sql_query.endswith("```"):
      sql_query = sql_query[:-3].strip()
  return sql_query
  \<close>
  The slice \<open>s[:-3]\<close> keeps the first \<open>len(s) - 3\<close> characters (none when the text
  is shorter than three characters).
\<close>

definition clean_sql_query :: "string \<Rightarrow> string" where
  "clean_sql_query sql_query =
     (let s1 = strip sql_query;
          s2 = (if startswith s1 ''```sql'' then strip (drop 6 s1)
                else if startswith s1 ''```'' then strip (drop 3 s1)
                else s1)
      in if endswith s2 ''```'' then strip (take (length s2 - 3) s2) else s2)"

section \<open>Storage-safe identifiers: \<open>ExcelDatabase._clean_table_name\<close>\<close>

text \<open>
  Exceptions are values. \<open>IndexError\<close> is what indexing an empty string raises,
  \<open>ValueError\<close> carries its message, and \<open>Raised\<close> stands for any exception
  that comes out of a library the code calls (the SQL backend, a provider's transport), with
  the name of its class and the text \<open>str(e)\<close> gives for it. The program defines no
  exception class of its own and wraps no exception in another.
\<close>

datatype exn = IndexError | ValueError string | Raised string string

fun str_exn :: "exn \<Rightarrow> string" where
  "str_exn IndexError = ''string index out of range''"
| "str_exn (ValueError msg) = msg"
| "str_exn (Raised cls msg) = msg"

fun exn_class :: "exn \<Rightarrow> string" where
  "exn_class IndexError = ''IndexError''"
| "exn_class (ValueError msg) = ''ValueError''"
| "exn_class (Raised cls msg) = cls"

text \<open>
  \<^verbatim>\<open>
  clean = re.sub(r'[^a-zA-Z0-9]', '_', name)
  if clean[0].isdigit():
      clean = 'sheet_' + clean
  return clean
  \<close>
  The character class is the ASCII letters and digits. \<open>str.isdigit()\<close> holds for
  the ASCII digits and, below 256, for the superscript digits 178, 179 and 185.
  \<open>clean[0]\<close> raises \<open>IndexError\<close> on the empty string.
\<close>

definition re_alnum :: "char \<Rightarrow> bool" where
  "re_alnum c =
     (c \<in> set ''abcdefghijklmnopqrstuvwxyzABCDEFGHIJKLMNOPQRSTUVWXYZ0123456789'')"

definition py_isdigit :: "char \<Rightarrow> bool" where
  "py_isdigit c =
     (c \<in> set ''0123456789'' \<or> (of_char c :: nat) = 178 \<or> (of_char c :: nat) = 179
      \<or> (of_char c :: nat) = 185)"

definition re_sub_non_alnum :: "string \<Rightarrow> string" where
  "re_sub_non_alnum name = map (\<lambda>c. if re_alnum c then c else CHR ''_'') name"

definition clean_table_name :: "string \<Rightarrow> exn + string" where
  "clean_table_name name =
     (let clean = re_sub_non_alnum name
      in case clean of
           [] \<Rightarrow> Inl IndexError
         | c # _ \<Rightarrow> if py_isdigit c then Inr (''sheet_'' @ clean) else Inr clean)"

section \<open>Tabular data\<close>

text \<open>
  A pandas \<open>DataFrame\<close> is a sequence of named columns over a common index. A column
  has its dtype, as \<open>str(df[col].dtype)\<close> prints it, and one value per row, \<open>None\<close>
  standing for a missing value (NaN, None, NaT). \<open>len(df)\<close> is the length of the
  index, which a frame without columns still has. \<open>df.empty\<close> holds when either axis
  has length 0. Column names are taken to be distinct, as pandas' readers make them.
\<close>

record 'v column =
  col_name :: string
  col_dtype :: string
  col_values :: "'v option list"

record 'v dataframe =
  df_len :: nat
  df_columns :: "'v column list"

definition df_empty :: "'v dataframe \<Rightarrow> bool" where
  "df_empty df = (df_len df = 0 \<or> df_columns df = [])"

definition dropna :: "'v option list \<Rightarrow> 'v list" where
  "dropna vals = List.map_filter (\<lambda>v. v) vals"

section \<open>The tabular store: \<open>ExcelDatabase\<close>\<close>

text \<open>
  \<open>self.sheets\<close> is a dict from the sheet's name to its entry; a Python dict keeps
  insertion order and an assignment to an existing key keeps the key's place, which is
  what \<open>AList.update\<close> does on an association list. \<open>self.conn\<close> is the SQLite
  connection: the tables it holds, by name.
  \<^verbatim>\<open>
  clean_name = self._clean_table_name(sheet_name)
  self.sheets[sheet_name] = {'clean_name': clean_name,
                             'columns': list(df.columns), 'data': df}
  df.to_sql(clean_name, self.conn, index=False, if_exists='replace')
  \<close>
  What \<open>df.to_sql(name, conn, index=False, if_exists='replace')\<close> does is a parameter:
  it returns or raises (SQLite refuses some names and some frames), and leaves the
  connection with some tables. When \<open>add_sheet\<close> raises, the store it has changed up to
  there stays changed: the entry of \<open>self.sheets\<close> is written before \<open>to_sql\<close> is
  called. So \<open>add_sheet\<close> gives the exception raised, if any, and the store afterwards.
\<close>

record 'v sheet_info =
  si_clean_name :: string
  si_columns :: "string list"
  si_data :: "'v dataframe"

record 'v ExcelDatabase =
  conn :: "string \<rightharpoonup> 'v dataframe"
  sheets :: "(string \<times> 'v sheet_info) list"

type_synonym 'v to_sql =
  "string \<Rightarrow> 'v dataframe \<Rightarrow> (string \<rightharpoonup> 'v dataframe)
     \<Rightarrow> exn option \<times> (string \<rightharpoonup> 'v dataframe)"

definition init_database :: "'v ExcelDatabase" where
  "init_database = \<lparr>conn = Map.empty, sheets = []\<rparr>"

definition add_sheet ::
  "'v to_sql \<Rightarrow> 'v ExcelDatabase \<Rightarrow> string \<Rightarrow> 'v dataframe \<Rightarrow> exn option \<times> 'v ExcelDatabase" where
  "add_sheet to_sql db sheet_name df =
     (case clean_table_name sheet_name of
        Inl e \<Rightarrow> (Some e, db)
      | Inr clean_name \<Rightarrow>
          (let db1 = db\<lparr>sheets :=
                          AList.update sheet_name
                            \<lparr>si_clean_name = clean_name,
                             si_columns = map col_name (df_columns df),
                             si_data = df\<rparr>
                            (sheets db)\<rparr>
           in case to_sql clean_name df (conn db1) of
                (raised, tables) \<Rightarrow> (raised, db1\<lparr>conn := tables\<rparr>)))"

text \<open>
  The write that SQLite accepts: it returns, and the table of that name, whatever it held,
  now holds the frame.
\<close>

definition replace_table :: "'v to_sql" where
  "replace_table name df tables = (None, tables(name \<mapsto> df))"

text \<open>
  \<open>execute_query\<close> hands the text to \<open>pd.read_sql_query\<close>. What SQLite makes of a
  text on given tables is a parameter: a result or an exception, and the tables afterwards.
\<close>

type_synonym 'v sql_engine =
  "string \<Rightarrow> (string \<rightharpoonup> 'v dataframe) \<Rightarrow> (exn + 'v dataframe) \<times> (string \<rightharpoonup> 'v dataframe)"

definition execute_query ::
  "'v sql_engine \<Rightarrow> 'v ExcelDatabase \<Rightarrow> string \<Rightarrow> (exn + 'v dataframe) \<times> 'v ExcelDatabase" where
  "execute_query read_sql_query db sql =
     (case read_sql_query sql (conn db) of (r, c) \<Rightarrow> (r, db\<lparr>conn := c\<rparr>))"

definition get_all_sheet_info :: "'v ExcelDatabase \<Rightarrow> (string \<times> 'v sheet_info) list" where
  "get_all_sheet_info db = sheets db"

section \<open>The schema snapshot: \<open>RAGSystem._get_database_schema\<close>\<close>

record 'v column_info =
  ci_name :: string
  ci_type :: string
  ci_sample_values :: "'v list"

record 'v table_schema =
  ts_table_name :: string
  ts_columns :: "'v column_info list"
  ts_row_count :: nat

type_synonym 'v schema = "(string \<times> 'v table_schema) list"

text \<open>
  \<^verbatim>\<open>
  if 'int' in dtype_str:       column_type = 'INTEGER'
  elif 'float' in dtype_str:   column_type = 'REAL'
  elif 'datetime' in dtype_str: column_type = 'DATETIME'
  else:                        column_type = 'TEXT'
  \<close>
\<close>

definition column_type :: "string \<Rightarrow> string" where
  "column_type dtype_str =
     (if sublist ''int'' dtype_str then ''INTEGER''
      else if sublist ''float'' dtype_str then ''REAL''
      else if sublist ''datetime'' dtype_str then ''DATETIME''
      else ''TEXT'')"

text \<open>
  \<open>Series.sample(n)\<close> draws \<open>n\<close> of the values at random, without replacement, and
  raises \<open>ValueError\<close> when the series holds fewer than \<open>n\<close> values. The draw itself
  is a parameter, acting on the state \<open>'w\<close> of the world outside the program (here the
  random generator).
\<close>

type_synonym ('w, 'v) draw = "nat \<Rightarrow> 'v list \<Rightarrow> 'w \<Rightarrow> 'v list \<times> 'w"

definition series_sample :: "('w, 'v) draw \<Rightarrow> nat \<Rightarrow> 'v list \<Rightarrow> 'w \<Rightarrow> (exn + 'v list) \<times> 'w" where
  "series_sample draw n xs w =
     (if xs = [] \<and> 0 < n then
        (Inl (ValueError ''a must be greater than 0 unless no samples are taken''), w)
      else if length xs < n then
        (Inl (ValueError (''Cannot take a larger sample than population when 'replace=False''
                          @ [CHR 0x27])), w)
      else case draw n xs w of (ys, w') \<Rightarrow> (Inr ys, w'))"

text \<open>
  The loop over \<open>df.columns\<close>, with \<open>n = len(df)\<close>:
  \<^verbatim>\<open>
  columns.append({'name': col, 'type': column_type,
      'sample_values': df[col].dropna().sample(min(3, max(1, len(df)))).tolist()})
  \<close>
\<close>

fun column_loop ::
  "('w, 'v) draw \<Rightarrow> nat \<Rightarrow> 'v column list \<Rightarrow> 'w \<Rightarrow> (exn + 'v column_info list) \<times> 'w" where
  "column_loop draw n [] w = (Inr [], w)"
| "column_loop draw n (col # cols) w =
     (case series_sample draw (min 3 (max 1 n)) (dropna (col_values col)) w of
        (Inl e, w') \<Rightarrow> (Inl e, w')
      | (Inr sample_values, w') \<Rightarrow>
          (case column_loop draw n cols w' of
             (Inl e, w'') \<Rightarrow> (Inl e, w'')
           | (Inr columns, w'') \<Rightarrow>
               (Inr (\<lparr>ci_name = col_name col,
                      ci_type = column_type (col_dtype col),
                      ci_sample_values = sample_values\<rparr> # columns), w'')))"

text \<open>The loop over \<open>sheet_info.items()\<close>, the schema built so far being \<open>schema\<close>.\<close>

fun sheet_loop ::
  "('w, 'v) draw \<Rightarrow> (string \<times> 'v sheet_info) list \<Rightarrow> 'v schema \<Rightarrow> 'w \<Rightarrow> (exn + 'v schema) \<times> 'w" where
  "sheet_loop draw [] schema w = (Inr schema, w)"
| "sheet_loop draw ((sheet_name, info) # rest) schema w =
     (case column_loop draw (df_len (si_data info)) (df_columns (si_data info)) w of
        (Inl e, w') \<Rightarrow> (Inl e, w')
      | (Inr columns, w') \<Rightarrow>
          sheet_loop draw rest
            (AList.update sheet_name
               \<lparr>ts_table_name = si_clean_name info,
                ts_columns = columns,
                ts_row_count = df_len (si_data info)\<rparr> schema) w')"

definition get_database_schema ::
  "('w, 'v) draw \<Rightarrow> 'v ExcelDatabase \<Rightarrow> 'w \<Rightarrow> (exn + 'v schema) \<times> 'w" where
  "get_database_schema draw db w = sheet_loop draw (get_all_sheet_info db) [] w"

text \<open>
  Two notions to state what a snapshot holds. A table is \<open>samplable\<close> when each of
  its columns has as many non-null values as the loop asks \<open>sample\<close> for. An entry of
  the snapshot is the \<open>snapshot_of\<close> a sheet when it is filed under the sheet's name and
  holds the sheet's identifier, its row count, its columns in order with the types
  \<open>column_type\<close> gives them, and for each column at most three sample values, all of
  them non-null values of that column.
\<close>

definition samplable :: "'v dataframe \<Rightarrow> bool" where
  "samplable df =
     list_all (\<lambda>c. min 3 (max 1 (df_len df)) \<le> length (dropna (col_values c))) (df_columns df)"

definition snapshot_of :: "string \<times> 'v table_schema \<Rightarrow> string \<times> 'v sheet_info \<Rightarrow> bool" where
  "snapshot_of entry sheet =
     (fst entry = fst sheet
      \<and> ts_table_name (snd entry) = si_clean_name (snd sheet)
      \<and> ts_row_count (snd entry) = df_len (si_data (snd sheet))
      \<and> map ci_name (ts_columns (snd entry)) = map col_name (df_columns (si_data (snd sheet)))
      \<and> map ci_type (ts_columns (snd entry)) =
          map (\<lambda>c. column_type (col_dtype c)) (df_columns (si_data (snd sheet)))
      \<and> list_all (\<lambda>info. length (ci_sample_values info) \<le> 3) (ts_columns (snd entry))
      \<and> list_all2 (\<lambda>info c. set (ci_sample_values info) \<subseteq> set (dropna (col_values c)))
           (ts_columns (snd entry)) (df_columns (si_data (snd sheet))))"

section \<open>Prompts\<close>

text \<open>
  The prompts are triple-quoted f-strings written inside indented code: the text opens
  with a newline, every line carries the eight spaces of the indentation, and after the
  last line come the eight spaces that stand before the closing quotes.
\<close>

definition indented_block :: "string list \<Rightarrow> string" where
  "indented_block lines =
     [CHR 0x0A] @ concat (map (\<lambda>l. ''        '' @ l @ [CHR 0x0A]) lines) @ ''        ''"

text \<open>The repair prompt of \<open>RAGSystem._fix_sql_query\<close>.\<close>

definition fix_prompt :: "string \<Rightarrow> string \<Rightarrow> string \<Rightarrow> string" where
  "fix_prompt sql error_message schema_str =
     indented_block
       [''You are an expert in SQL. The following SQL query failed:'',
        '''',
        ''```sql'',
        sql,
        ''```'',
        '''',
        ''Error message:'',
        error_message,
        '''',
        ''DATABASE SCHEMA:'',
        schema_str,
        '''',
        ''Please fix the SQL query to make it work with the given schema. Return ONLY the fixed SQL query without any explanations or comments.'']"

text \<open>The answer prompt of the three providers' \<open>generate_response\<close>, the same text in each.\<close>

definition response_template :: "string \<Rightarrow> string \<Rightarrow> string \<Rightarrow> string" where
  "response_template question result_text context_json =
     indented_block
       [''You are an expert data analyst providing answers based on SQL query results.'',
        '''',
        ''USER QUESTION:'',
        question,
        '''',
        ''SQL QUERY RESULTS:'',
        result_text,
        '''',
        ''CONTEXT:'',
        context_json,
        '''',
        ''Your task is to provide a clear, concise answer to the user's question based on the SQL query results.'',
        ''Explain the results in natural language, providing insights and context where appropriate.'',
        ''If the results are empty or don't directly answer the question, acknowledge this and explain possible reasons why.'']"

section \<open>The providers: \<open>OpenAIProvider\<close>, \<open>GeminiProvider\<close>, \<open>OpenRouterProvider\<close>\<close>

datatype provider_kind = OpenAIProvider | GeminiProvider | OpenRouterProvider

fun env_var :: "provider_kind \<Rightarrow> string" where
  "env_var OpenAIProvider = ''OPENAI_API_KEY''"
| "env_var GeminiProvider = ''GEMINI_API_KEY''"
| "env_var OpenRouterProvider = ''OPENROUTER_API_KEY''"

fun key_required :: "provider_kind \<Rightarrow> string" where
  "key_required OpenAIProvider = ''OpenAI API key is required. Please provide it through the UI.''"
| "key_required GeminiProvider = ''Gemini API key is required. Please provide it through the UI.''"
| "key_required OpenRouterProvider = ''OpenRouter API key is required. Please provide it through the UI.''"

record provider =
  pv_kind :: provider_kind
  pv_api_key :: string

text \<open>
  \<open>__init__\<close>, the same in the three classes but for the variable's name and the message.
  \<open>api_key\<close> is \<open>None\<close> or a string; \<open>environ\<close> is \<open>os.environ\<close>.
  \<^verbatim>\<open>
  if api_key is None:
      api_key = os.environ.get("OPENAI_API_KEY")
  if not api_key:
      raise ValueError("OpenAI API key is required. Please provide it through the UI.")
  \<close>
\<close>

definition provider_init ::
  "provider_kind \<Rightarrow> string option \<Rightarrow> (string \<rightharpoonup> string) \<Rightarrow> exn + provider" where
  "provider_init kind api_key environ =
     (let api_key' = (case api_key of None \<Rightarrow> environ (env_var kind) | Some k \<Rightarrow> Some k)
      in case api_key' of
           None \<Rightarrow> Inl (ValueError (key_required kind))
         | Some k \<Rightarrow>
             if k = [] then Inl (ValueError (key_required kind))
             else Inr \<lparr>pv_kind = kind, pv_api_key = k\<rparr>)"

record 'v answer_context =
  ctx_original_query :: string
  ctx_sql_query :: string
  ctx_schema :: "'v schema"

text \<open>
  \<open>generate_response\<close> up to the request it sends. \<open>DataFrame.to_string\<close> and
  \<open>json.dumps\<close> are parameters; the latter raises on a value it cannot serialise.
  \<^verbatim>\<open>
  if sql_result is not None and not sql_result.empty:
      result_str = sql_result.to_string()
  else:
      result_str = "No results found"
  \<close>
\<close>

definition result_str :: "('v dataframe \<Rightarrow> string) \<Rightarrow> 'v dataframe option \<Rightarrow> string" where
  "result_str to_string sql_result =
     (case sql_result of
        None \<Rightarrow> ''No results found''
      | Some df \<Rightarrow> if \<not> df_empty df then to_string df else ''No results found'')"

definition generate_response_prompt ::
  "provider \<Rightarrow> ('v dataframe \<Rightarrow> string) \<Rightarrow> ('v answer_context \<Rightarrow> exn + string) \<Rightarrow>
     string \<Rightarrow> 'v dataframe option \<Rightarrow> 'v answer_context \<Rightarrow> exn + string" where
  "generate_response_prompt self to_string json_dumps question sql_result ctx =
     (let result_text = result_str to_string sql_result
      in case json_dumps ctx of
           Inl e \<Rightarrow> Inl e
         | Inr context_json \<Rightarrow> Inr (response_template question result_text context_json))"

section \<open>The pipeline: \<open>RAGSystem.query\<close>\<close>

text \<open>
  The pipeline works with any provider: two operations, each a call to a model outside
  the program, which may raise and which acts on the state \<open>'w\<close> of the world.
\<close>

record ('w, 'v) llm_provider =
  generate_sql :: "string \<Rightarrow> 'v schema \<Rightarrow> 'w \<Rightarrow> (exn + string) \<times> 'w"
  generate_response :: "string \<Rightarrow> 'v dataframe option \<Rightarrow> 'v answer_context \<Rightarrow> 'w \<Rightarrow> (exn + string) \<times> 'w"

text \<open>What the pipeline takes from pandas, SQLite and Python: the random draw of the
  samples, the execution of a query text, and \<open>str\<close> of the schema dict.\<close>

record ('w, 'v) runtime =
  rt_draw :: "('w, 'v) draw"
  rt_read_sql_query :: "'v sql_engine"
  rt_str :: "'v schema \<Rightarrow> string"

record ('w, 'v) RAGSystem =
  database :: "'v ExcelDatabase"
  llm_provider :: "('w, 'v) llm_provider"

text \<open>The calls a run of \<open>query\<close> makes to the provider and to the store, in order.\<close>

datatype 'v call =
    GenerateSql string "'v schema"
  | ExecuteQuery string
  | GenerateResponse string "'v dataframe option" "'v answer_context"

fun is_GenerateSql :: "'v call \<Rightarrow> bool" where
  "is_GenerateSql (GenerateSql _ _) = True"
| "is_GenerateSql _ = False"

fun is_ExecuteQuery :: "'v call \<Rightarrow> bool" where
  "is_ExecuteQuery (ExecuteQuery _) = True"
| "is_ExecuteQuery _ = False"

fun is_GenerateResponse :: "'v call \<Rightarrow> bool" where
  "is_GenerateResponse (GenerateResponse _ _ _) = True"
| "is_GenerateResponse _ = False"

definition fix_sql_query ::
  "('w, 'v) runtime \<Rightarrow> ('w, 'v) llm_provider \<Rightarrow> string \<Rightarrow> string \<Rightarrow> 'v schema \<Rightarrow> 'w
     \<Rightarrow> (exn + string) \<times> 'w" where
  "fix_sql_query rt prov sql error_message database_schema w =
     generate_sql prov (fix_prompt sql error_message (rt_str rt database_schema))
       database_schema w"

text \<open>
  The end of \<open>query\<close>, after the \<open>try\<close> statement: the context bundle, the answer, the pair.
  \<open>calls\<close> are the calls made so far.
\<close>

definition query_respond ::
  "('w, 'v) llm_provider \<Rightarrow> string \<Rightarrow> 'v schema \<Rightarrow> 'v call list \<Rightarrow> string \<Rightarrow> 'v dataframe
     \<Rightarrow> 'v ExcelDatabase \<Rightarrow> 'w
     \<Rightarrow> (exn + string \<times> string) \<times> 'v call list \<times> 'v ExcelDatabase \<times> 'w" where
  "query_respond prov question database_schema calls sql results db w =
     (let ctx = \<lparr>ctx_original_query = question, ctx_sql_query = sql,
                     ctx_schema = database_schema\<rparr>;
          calls' = calls @ [GenerateResponse question (Some results) ctx]
      in case generate_response prov question (Some results) ctx w of
           (Inl e, w') \<Rightarrow> (Inl e, calls', db, w')
         | (Inr response, w') \<Rightarrow> (Inr (sql, response), calls', db, w'))"

text \<open>
  \<^verbatim>\<open>
  database_schema = self._get_database_schema()
  sql_query = self.llm_provider.generate_sql(natural_language_query, database_schema)
  sql_query = self._clean_sql_query(sql_query)
  try:
      results = self.database.execute_query(sql_query)
  except Exception as e:
      fixed_sql = self._fix_sql_query(sql_query, str(e), database_schema)
      fixed_sql = self._clean_sql_query(fixed_sql)
      results = self.database.execute_query(fixed_sql)
      sql_query = fixed_sql
  \<close>
  The result is the pair or the exception that left \<open>query\<close>, with the calls made, the
  store and the world afterwards.
\<close>

definition query ::
  "('w, 'v) runtime \<Rightarrow> ('w, 'v) RAGSystem \<Rightarrow> string \<Rightarrow> 'w
     \<Rightarrow> (exn + string \<times> string) \<times> 'v call list \<times> 'v ExcelDatabase \<times> 'w" where
  "query rt self natural_language_query w =
     (case get_database_schema (rt_draw rt) (database self) w of
        (Inl e, w1) \<Rightarrow> (Inl e, [], database self, w1)
      | (Inr database_schema, w1) \<Rightarrow>
     (let c1 = [GenerateSql natural_language_query database_schema]
      in case generate_sql (llm_provider self) natural_language_query database_schema w1 of
        (Inl e, w2) \<Rightarrow> (Inl e, c1, database self, w2)
      | (Inr raw, w2) \<Rightarrow>
     (let sql = clean_sql_query raw;
          c2 = c1 @ [ExecuteQuery sql]
      in case execute_query (rt_read_sql_query rt) (database self) sql of
        (Inr results, db1) \<Rightarrow>
          query_respond (llm_provider self) natural_language_query database_schema c2
            sql results db1 w2
      | (Inl e, db1) \<Rightarrow>
     (let c3 = c2 @ [GenerateSql (fix_prompt sql (str_exn e) (rt_str rt database_schema))
                       database_schema]
      in case fix_sql_query rt (llm_provider self) sql (str_exn e) database_schema w2 of
        (Inl e', w3) \<Rightarrow> (Inl e', c3, db1, w3)
      | (Inr fixed_raw, w3) \<Rightarrow>
     (let fixed_sql = clean_sql_query fixed_raw;
          c4 = c3 @ [ExecuteQuery fixed_sql]
      in case execute_query (rt_read_sql_query rt) db1 fixed_sql of
        (Inl e2, db2) \<Rightarrow> (Inl e2, c4, db2, w3)
      | (Inr results, db2) \<Rightarrow>
          query_respond (llm_provider self) natural_language_query database_schema c4
            fixed_sql results db2 w3)))))"

section \<open>A worked scenario: the table \<open>Sales\<close>\<close>

text \<open>
  Concrete data on which the definitions are run: the table \<open>Sales\<close> with the columns
  \<open>region\<close> and \<open>amount\<close> and two rows, the same sheet with its header only, and
  the same sheet with a missing amount in one of three rows. Amounts are whole numbers.
\<close>

datatype cell = TextCell string | NumCell int

definition sales_df :: "cell dataframe" where
  "sales_df =
     \<lparr>df_len = 2,
      df_columns =
        [\<lparr>col_name = ''region'', col_dtype = ''object'',
          col_values = [Some (TextCell ''East''), Some (TextCell ''West'')]\<rparr>,
         \<lparr>col_name = ''amount'', col_dtype = ''float64'',
          col_values = [Some (NumCell 100), Some (NumCell 150)]\<rparr>]\<rparr>"

definition header_only_df :: "cell dataframe" where
  "header_only_df =
     \<lparr>df_len = 0,
      df_columns =
        [\<lparr>col_name = ''region'', col_dtype = ''object'', col_values = []\<rparr>,
         \<lparr>col_name = ''amount'', col_dtype = ''object'', col_values = []\<rparr>]\<rparr>"

definition missing_amount_df :: "cell dataframe" where
  "missing_amount_df =
     \<lparr>df_len = 3,
      df_columns =
        [\<lparr>col_name = ''region'', col_dtype = ''object'',
          col_values = [Some (TextCell ''East''), Some (TextCell ''West''),
                        Some (TextCell ''North'')]\<rparr>,
         \<lparr>col_name = ''amount'', col_dtype = ''float64'',
          col_values = [Some (NumCell 100), None, Some (NumCell 150)]\<rparr>]\<rparr>"

text \<open>The store after \<open>add_sheet('Sales', df)\<close> on a new database.\<close>

definition sales_store :: "cell dataframe \<Rightarrow> cell ExcelDatabase" where
  "sales_store df =
     \<lparr>conn = [''Sales'' \<mapsto> df],
      sheets = [(''Sales'',
                 \<lparr>si_clean_name = ''Sales'',
                  si_columns = map col_name (df_columns df),
                  si_data = df\<rparr>)]\<rparr>"

text \<open>
  A backend that knows one query, and two stub providers. The world is the number of
  calls made to the model so far. The first provider answers the question with a fenced
  query on a column that does not exist and every later request with the right query; the
  second never gets the column right. The backend raises pandas' \<open>DatabaseError\<close>,
  with a diagnostic that names the query that failed.
\<close>

definition total_df :: "cell dataframe" where
  "total_df =
     \<lparr>df_len = 1,
      df_columns =
        [\<lparr>col_name = ''SUM(amount)'', col_dtype = ''float64'',
          col_values = [Some (NumCell 250)]\<rparr>]\<rparr>"

definition stub_engine :: "cell sql_engine" where
  "stub_engine sql tables =
     (if sql = ''SELECT SUM(amount) FROM Sales'' then (Inr total_df, tables)
      else (Inl (Raised ''DatabaseError'' (''Execution failed on sql: '' @ sql)), tables))"

definition stub_runtime :: "(nat, cell) runtime" where
  "stub_runtime =
     \<lparr>rt_draw = (\<lambda>n xs w. (take n xs, w)),
      rt_read_sql_query = stub_engine,
      rt_str = (\<lambda>schema. concat (map fst schema))\<rparr>"

definition repairing_provider :: "(nat, cell) llm_provider" where
  "repairing_provider =
     \<lparr>generate_sql = (\<lambda>question schema calls.
        (if calls = 0
         then Inr (''```sql'' @ [CHR 0x0A] @ ''SELECT SUM(total) FROM Sales'' @ [CHR 0x0A] @ ''```'')
         else Inr (''```sql'' @ [CHR 0x0A] @ ''SELECT SUM(amount) FROM Sales'' @ [CHR 0x0A] @ ''```''),
         Suc calls)),
      generate_response = (\<lambda>question results ctx calls.
        (Inr ''The total amount is 250.'', Suc calls))\<rparr>"

definition stubborn_provider :: "(nat, cell) llm_provider" where
  "stubborn_provider =
     \<lparr>generate_sql = (\<lambda>question schema calls.
        (if calls = 0 then Inr ''SELECT SUM(total) FROM Sales''
         else Inr ''SELECT SUM(totals) FROM Sales'',
         Suc calls)),
      generate_response = (\<lambda>question results ctx calls.
        (Inr ''The total amount is 250.'', Suc calls))\<rparr>"

definition sales_schema :: "cell schema" where
  "sales_schema =
     [(''Sales'',
       \<lparr>ts_table_name = ''Sales'',
        ts_columns =
          [\<lparr>ci_name = ''region'', ci_type = ''TEXT'',
            ci_sample_values = [TextCell ''East'', TextCell ''West'']\<rparr>,
           \<lparr>ci_name = ''amount'', ci_type = ''REAL'',
            ci_sample_values = [NumCell 100, NumCell 150]\<rparr>],
        ts_row_count = 2\<rparr>)]"

section \<open>Properties of the sanitizer\<close>

lemma sublist_trans: "sublist xs ys \<Longrightarrow> sublist ys zs \<Longrightarrow> sublist xs zs"
proof -
  assume "sublist xs ys" and "sublist ys zs"
  then obtain p1 s1 p2 s2 where "ys = p1 @ xs @ s1" and "zs = p2 @ ys @ s2"
    by (auto simp: sublist_def)
  then have "zs = (p2 @ p1) @ xs @ (s1 @ s2)" by simp
  then show ?thesis unfolding sublist_def by blast
qed

lemma sublist_rstrip: "sublist (rstrip s) s"
proof -
  have "suffix (dropWhile py_isspace (rev s)) (rev s)"
    by (rule suffix_dropWhile)
  then have "prefix (rstrip s) s"
    by (simp add: rstrip_def suffix_to_prefix)
  then show ?thesis by (rule prefix_imp_sublist)
qed

lemma sublist_strip: "sublist (strip s) s"
proof -
  have "sublist (strip s) (lstrip s)"
    unfolding strip_def by (rule sublist_rstrip)
  moreover have "sublist (lstrip s) s"
    unfolding lstrip_def by (rule sublist_dropWhile)
  ultimately show ?thesis by (rule sublist_trans)
qed

lemma sublist_strip_drop: "sublist (strip (drop n s)) s"
  using sublist_strip [of "drop n s"] sublist_drop [of n s]
  by (rule sublist_trans)

lemma sublist_strip_take: "sublist (strip (take n s)) s"
  using sublist_strip [of "take n s"] sublist_take [of n s]
  by (rule sublist_trans)

lemma lstrip_idem: "lstrip (lstrip s) = lstrip s"
  by (simp add: lstrip_def)

lemma rstrip_idem: "rstrip (rstrip s) = rstrip s"
  by (simp add: rstrip_def)

lemma lstrip_all_space: "\<forall>c\<in>set w. py_isspace c \<Longrightarrow> lstrip (w @ s) = lstrip s"
  by (simp add: lstrip_def dropWhile_append)

lemma rstrip_all_space: "\<forall>c\<in>set w. py_isspace c \<Longrightarrow> rstrip (s @ w) = rstrip s"
  by (simp add: rstrip_def dropWhile_append)

lemma lstrip_nonspace: "\<not> py_isspace c \<Longrightarrow> lstrip (c # s) = c # s"
  by (simp add: lstrip_def)

lemma rstrip_nonspace: "\<not> py_isspace c \<Longrightarrow> rstrip (s @ [c]) = s @ [c]"
  by (simp add: rstrip_def)

lemma lstrip_append_nonspace:
  "\<not> py_isspace c \<Longrightarrow> lstrip (xs @ c # ys) = lstrip xs @ c # ys"
  by (auto simp add: lstrip_def dropWhile_append)

lemma rstrip_append_nonspace:
  "\<not> py_isspace c \<Longrightarrow> rstrip (xs @ c # ys) = xs @ c # rstrip ys"
  by (auto simp add: rstrip_def dropWhile_append)

lemma lstrip_cases: "lstrip s = [] \<or> (\<exists>c t. lstrip s = c # t \<and> \<not> py_isspace c)"
  unfolding lstrip_def by (metis hd_dropWhile list.exhaust list.sel(1))

lemma rstrip_cases: "rstrip s = [] \<or> (\<exists>c t. rstrip s = t @ [c] \<and> \<not> py_isspace c)"
proof (cases "dropWhile py_isspace (rev s)")
  case Nil
  then show ?thesis by (simp add: rstrip_def)
next
  case (Cons c t)
  then have "\<not> py_isspace c" using hd_dropWhile [of py_isspace "rev s"] by simp
  with Cons show ?thesis by (simp add: rstrip_def)
qed

lemma lstrip_Nil_conv: "lstrip s = [] \<longleftrightarrow> (\<forall>c\<in>set s. py_isspace c)"
  by (simp add: lstrip_def dropWhile_eq_Nil_conv)

lemma rstrip_Nil_conv: "rstrip s = [] \<longleftrightarrow> (\<forall>c\<in>set s. py_isspace c)"
  by (simp add: rstrip_def dropWhile_eq_Nil_conv)

lemma lstrip_Nil: "lstrip [] = []"
  by (simp add: lstrip_def)

lemma rstrip_Nil: "rstrip [] = []"
  by (simp add: rstrip_def)

lemma strip_comm: "rstrip (lstrip s) = lstrip (rstrip s)"
proof (cases "lstrip s")
  case Nil
  then have "\<forall>c\<in>set s. py_isspace c" by (simp add: lstrip_Nil_conv)
  then have "rstrip s = []" by (simp add: rstrip_Nil_conv)
  with Nil show ?thesis by (simp add: rstrip_Nil lstrip_Nil)
next
  case (Cons c t)
  then have c: "\<not> py_isspace c" using lstrip_cases [of s] by auto
  define w where "w = takeWhile py_isspace s"
  have w: "\<forall>c\<in>set w. py_isspace c" unfolding w_def by (auto dest: set_takeWhileD)
  have s: "s = w @ c # t"
    using Cons takeWhile_dropWhile_id [of py_isspace s] by (simp add: w_def lstrip_def)
  have "rstrip (lstrip s) = c # rstrip t"
    using rstrip_append_nonspace [OF c, of "[]" t] Cons by simp
  moreover have "rstrip s = w @ c # rstrip t"
    using rstrip_append_nonspace [OF c, of w t] s by simp
  moreover have "lstrip (w @ c # rstrip t) = c # rstrip t"
    using lstrip_all_space [OF w, of "c # rstrip t"] lstrip_nonspace [OF c] by simp
  ultimately show ?thesis by simp
qed

lemma strip_idem: "strip (strip s) = strip s"
proof -
  have "strip (strip s) = rstrip (lstrip (lstrip (rstrip s)))"
    by (simp add: strip_def strip_comm)
  also have "\<dots> = rstrip (rstrip (lstrip s))" by (simp add: lstrip_idem strip_comm)
  finally show ?thesis by (simp add: rstrip_idem strip_def)
qed

lemma strip_lstrip: "strip (lstrip s) = strip s"
  by (simp add: strip_def lstrip_idem)

lemma strip_rstrip: "strip (rstrip s) = strip s"
  by (simp add: strip_def strip_comm [symmetric] rstrip_idem)

lemma strip_all_space_left: "\<forall>c\<in>set w. py_isspace c \<Longrightarrow> strip (w @ s) = strip s"
  by (simp add: strip_def lstrip_all_space)

lemma strip_all_space_right: "\<forall>c\<in>set w. py_isspace c \<Longrightarrow> strip (s @ w) = strip s"
  by (simp add: strip_def strip_comm rstrip_all_space)

lemma strip_id:
  "\<not> py_isspace a \<Longrightarrow> \<not> py_isspace b \<Longrightarrow> strip (a # m @ [b]) = a # m @ [b]"
  using rstrip_nonspace [of b "a # m"] by (simp add: strip_def lstrip_nonspace)

lemma strip_Nil: "strip [] = []"
  by (simp add: strip_def lstrip_def rstrip_def)


lemma length_strip_le: "length (strip s) \<le> length s"
  using sublist_strip [of s] by (rule sublist_length_le)

lemma backtick_nonspace: "\<not> py_isspace (CHR 0x60)"
  by (simp add: py_isspace_def)

lemma strip_fenced:
  assumes "\<forall>c\<in>set w1. py_isspace c" and "\<forall>c\<in>set w2. py_isspace c"
  shows "strip (w1 @ ''```'' @ m @ ''```'' @ w2) = ''```'' @ m @ ''```''"
proof -
  have "strip (w1 @ ''```'' @ m @ ''```'' @ w2) = strip ((''```'' @ m @ ''```'') @ w2)"
    using strip_all_space_left [OF assms(1)] by simp
  also have "\<dots> = strip (''```'' @ m @ ''```'')"
    using assms(2) by (rule strip_all_space_right)
  also have "\<dots> = ''```'' @ m @ ''```''"
    using strip_id [OF backtick_nonspace backtick_nonspace, of "''``'' @ m @ ''``''"]
    by simp
  finally show ?thesis .
qed

lemma strip_body_fence: "strip (body @ ''```'') = lstrip body @ ''```''"
proof -
  have "lstrip (body @ ''```'') = lstrip body @ ''```''"
    using lstrip_append_nonspace [OF backtick_nonspace, of body "''``''"] by simp
  moreover have "rstrip (lstrip body @ ''```'') = lstrip body @ ''```''"
    using rstrip_nonspace [OF backtick_nonspace, of "lstrip body @ ''``''"] by simp
  ultimately show ?thesis by (simp add: strip_def)
qed

lemma close_fence: "(if endswith (lstrip body @ ''```'') ''```''
    then strip (take (length (lstrip body @ ''```'') - 3) (lstrip body @ ''```''))
    else lstrip body @ ''```'') = strip body"
proof -
  have "suffix ''```'' (lstrip body @ ''```'')" by (simp add: suffix_def)
  then show ?thesis by (simp add: endswith_def strip_lstrip)
qed

lemma clean_sql_fenced:
  assumes "\<forall>c\<in>set w1. py_isspace c" and "\<forall>c\<in>set w2. py_isspace c"
  shows "clean_sql_query (w1 @ ''```sql'' @ body @ ''```'' @ w2) = strip body"
proof -
  have s1: "strip (w1 @ ''```sql'' @ body @ ''```'' @ w2) = ''```sql'' @ body @ ''```''"
    using strip_fenced [OF assms, of "''sql'' @ body"] by simp
  have "clean_sql_query (w1 @ ''```sql'' @ body @ ''```'' @ w2) =
    (if endswith (lstrip body @ ''```'') ''```''
    then strip (take (length (lstrip body @ ''```'') - 3) (lstrip body @ ''```''))
    else lstrip body @ ''```'')"
    unfolding clean_sql_query_def s1 Let_def
    using strip_body_fence [of body] by (simp add: startswith_def)
  then show ?thesis by (simp only: close_fence)
qed

lemma sql_prefix_fence: "prefix ''sql'' (body @ ''```'') \<longleftrightarrow> prefix ''sql'' body"
proof (cases body)
  case Nil then show ?thesis by simp
next
  case (Cons a b1)
  show ?thesis
  proof (cases b1)
    case Nil with Cons show ?thesis by simp
  next
    case (Cons b b2)
    show ?thesis
    proof (cases b2)
      case Nil with \<open>body = a # b1\<close> \<open>b1 = b # b2\<close> show ?thesis by simp
    next
      case (Cons c b3) with \<open>body = a # b1\<close> \<open>b1 = b # b2\<close> show ?thesis by simp
    qed
  qed
qed

lemma clean_bare_fenced:
  assumes "\<forall>c\<in>set w1. py_isspace c" and "\<forall>c\<in>set w2. py_isspace c"
    and "\<not> startswith body ''sql''"
  shows "clean_sql_query (w1 @ ''```'' @ body @ ''```'' @ w2) = strip body"
proof -
  have s1: "strip (w1 @ ''```'' @ body @ ''```'' @ w2) = ''```'' @ body @ ''```''"
    using assms(1,2) by (rule strip_fenced)
  have no: "\<not> startswith (''```'' @ body @ ''```'') ''```sql''"
    using assms(3) sql_prefix_fence [of body] by (simp add: startswith_def)
  have "clean_sql_query (w1 @ ''```'' @ body @ ''```'' @ w2) =
    (if endswith (lstrip body @ ''```'') ''```''
    then strip (take (length (lstrip body @ ''```'') - 3) (lstrip body @ ''```''))
    else lstrip body @ ''```'')"
    unfolding clean_sql_query_def s1 Let_def
    using strip_body_fence [of body] no by (simp add: startswith_def)
  then show ?thesis by (simp only: close_fence)
qed

lemma clean_sql_trimmed: "strip (clean_sql_query x) = clean_sql_query x"
  by (simp add: clean_sql_query_def Let_def strip_idem)

lemma clean_sql_strip: "clean_sql_query (strip x) = clean_sql_query x"
  by (simp add: clean_sql_query_def Let_def strip_idem)

lemma startswith_sql_fence: "startswith x ''```sql'' \<Longrightarrow> startswith x ''```''"
  by (auto simp: startswith_def prefix_def)

lemma clean_sql_noop:
  "strip x = x \<Longrightarrow> \<not> startswith x ''```'' \<Longrightarrow> \<not> endswith x ''```'' \<Longrightarrow> clean_sql_query x = x"
  using startswith_sql_fence [of x] by (auto simp add: clean_sql_query_def Let_def)

lemma length_close_le:
  "length (if endswith s ''```'' then strip (take (length s - 3) s) else s) \<le> length s"
proof (cases "endswith s ''```''")
  case True
  have "length (strip (take (length s - 3) s)) \<le> length (take (length s - 3) s)"
    by (rule length_strip_le)
  also have "\<dots> \<le> length s" by simp
  finally show ?thesis using True by simp
next
  case False
  then show ?thesis by simp
qed

lemma clean_sql_shorter:
  assumes "strip y = y" and "startswith y ''```'' \<or> endswith y ''```''"
  shows "length (clean_sql_query y) < length y"
proof (cases "startswith y ''```''")
  case True
  then have len: "3 \<le> length y" by (auto simp: startswith_def prefix_def)
  define s2 where "s2 = (if startswith y ''```sql'' then strip (drop 6 y) else strip (drop 3 y))"
  have c: "clean_sql_query y =
     (if endswith s2 ''```'' then strip (take (length s2 - 3) s2) else s2)"
    using True by (simp add: clean_sql_query_def Let_def assms(1) s2_def)
  have "length (strip (drop 6 y)) \<le> length (drop 6 y)"
    and "length (strip (drop 3 y)) \<le> length (drop 3 y)"
    by (rule length_strip_le)+
  then have "length (strip (drop 6 y)) \<le> length y - 3"
    and "length (strip (drop 3 y)) \<le> length y - 3"
    by (simp_all add: le_diff_conv)
  then have "length s2 \<le> length y - 3"
    by (simp add: s2_def)
  moreover have "length (clean_sql_query y) \<le> length s2"
    unfolding c by (rule length_close_le)
  ultimately show ?thesis using len by simp
next
  case False
  with assms(2) have e: "endswith y ''```''" by simp
  then have len: "3 \<le> length y" by (auto simp: endswith_def suffix_def)
  from False have "\<not> startswith y ''```sql''" using startswith_sql_fence by blast
  with False e have c: "clean_sql_query y = strip (take (length y - 3) y)"
    by (simp add: clean_sql_query_def Let_def assms(1))
  have "length (strip (take (length y - 3) y)) \<le> length y - 3"
    using length_strip_le [of "take (length y - 3) y"] by simp
  then show ?thesis using len c by simp
qed

lemma strip_ends:
  "strip s = [] \<or> (\<not> py_isspace (hd (strip s)) \<and> \<not> py_isspace (last (strip s)))"
proof (cases "strip s = []")
  case True then show ?thesis by simp
next
  case False
  have "\<not> py_isspace (hd (strip s))"
    using lstrip_cases [of "rstrip s"] False by (auto simp: strip_def strip_comm)
  moreover have "\<not> py_isspace (last (strip s))"
    using rstrip_cases [of "lstrip s"] False by (auto simp: strip_def)
  ultimately show ?thesis by simp
qed

lemma clean_sql_is_strip: "\<exists>t. clean_sql_query x = strip t"
  by (auto simp add: clean_sql_query_def Let_def)

text \<open>
  C5, as the code has it. The sanitized text has no whitespace at either end, and
  sanitizing a text or its trimmed form gives the same. The code knows no language tags,
  only the six characters \<open>```sql\<close> and the three characters \<open>```\<close> at the head of
  the trimmed text. Of a text that is, between whitespace, \<open>```sql\<close>, any body and a
  closing \<open>```\<close>, it returns the body, trimmed: after \<open>```sqlite\<close> the letters
  \<open>ite\<close> are body. Of a text that is, between whitespace, \<open>```\<close>, a body that does
  not begin with \<open>sql\<close> and a closing \<open>```\<close>, it returns the body, trimmed: a tag
  such as \<open>python\<close> is body and stays. A trimmed text that neither begins nor ends
  with \<open>```\<close> is returned as it is.
\<close>

theorem clean_sql_query_fences:
  "strip (clean_sql_query x) = clean_sql_query x
   \<and> (clean_sql_query x = []
        \<or> (\<not> py_isspace (hd (clean_sql_query x)) \<and> \<not> py_isspace (last (clean_sql_query x))))
   \<and> clean_sql_query (strip x) = clean_sql_query x
   \<and> (list_all py_isspace w1 \<and> list_all py_isspace w2 \<longrightarrow>
        clean_sql_query (w1 @ ''```sql'' @ body @ ''```'' @ w2) = strip body)
   \<and> (list_all py_isspace w1 \<and> list_all py_isspace w2 \<and> \<not> startswith body ''sql'' \<longrightarrow>
        clean_sql_query (w1 @ ''```'' @ body @ ''```'' @ w2) = strip body)
   \<and> (strip x = x \<and> \<not> startswith x ''```'' \<and> \<not> endswith x ''```'' \<longrightarrow>
        clean_sql_query x = x)"
proof -
  obtain t where t: "clean_sql_query x = strip t" using clean_sql_is_strip by blast
  have ends: "clean_sql_query x = []
        \<or> (\<not> py_isspace (hd (clean_sql_query x)) \<and> \<not> py_isspace (last (clean_sql_query x)))"
    unfolding t by (rule strip_ends)
  have a: "list_all py_isspace w1 \<and> list_all py_isspace w2 \<longrightarrow>
        clean_sql_query (w1 @ ''```sql'' @ body @ ''```'' @ w2) = strip body"
    using clean_sql_fenced [of w1 w2 body] by (simp add: list_all_iff)
  have b: "list_all py_isspace w1 \<and> list_all py_isspace w2 \<and> \<not> startswith body ''sql'' \<longrightarrow>
        clean_sql_query (w1 @ ''```'' @ body @ ''```'' @ w2) = strip body"
    using clean_bare_fenced [of w1 w2 body] by (simp add: list_all_iff)
  have c: "strip x = x \<and> \<not> startswith x ''```'' \<and> \<not> endswith x ''```'' \<longrightarrow>
        clean_sql_query x = x"
    using clean_sql_noop [of x] by blast
  from clean_sql_trimmed [of x] ends clean_sql_strip [of x] a b c show ?thesis
    by blast
qed

theorem clean_sql_query_fences_witness:
  "list_all py_isspace ''  '' \<and> list_all py_isspace [CHR 0x0A]
   \<and> \<not> startswith ([CHR 0x0A] @ ''SELECT 1'' @ [CHR 0x0A]) ''sql''
   \<and> clean_sql_query (''  '' @ ''```sql'' @ ([CHR 0x0A] @ ''SELECT 1'' @ [CHR 0x0A]) @ ''```'' @ [CHR 0x0A]) = ''SELECT 1''
   \<and> clean_sql_query (''  '' @ ''```'' @ ([CHR 0x0A] @ ''SELECT 1'' @ [CHR 0x0A]) @ ''```'' @ [CHR 0x0A]) = ''SELECT 1''
   \<and> strip ''SELECT 1'' = ''SELECT 1''
   \<and> \<not> startswith ''SELECT 1'' ''```'' \<and> \<not> endswith ''SELECT 1'' ''```''
   \<and> clean_sql_query ''SELECT 1'' = ''SELECT 1''
   \<and> list_all py_isspace ''''
   \<and> clean_sql_query ('''' @ ''```sql'' @ (''ite'' @ [CHR 0x0A] @ ''SELECT 1'' @ [CHR 0x0A]) @ ''```'' @ '''')
       = ''ite'' @ [CHR 0x0A] @ ''SELECT 1''
   \<and> clean_sql_query ('''' @ ''```sql'' @ ''x'' @ ''```'' @ '''') = ''x''
   \<and> \<not> startswith (''python'' @ [CHR 0x0A] @ ''SELECT 1'' @ [CHR 0x0A]) ''sql''
   \<and> clean_sql_query ('''' @ ''```'' @ (''python'' @ [CHR 0x0A] @ ''SELECT 1'' @ [CHR 0x0A]) @ ''```'' @ '''')
       = ''python'' @ [CHR 0x0A] @ ''SELECT 1''"
proof -
  have h1: "list_all py_isspace ''  ''" by code_simp
  have h2: "list_all py_isspace [CHR 0x0A]" by code_simp
  have h3: "\<not> startswith ([CHR 0x0A] @ ''SELECT 1'' @ [CHR 0x0A]) ''sql''" by code_simp
  have h4: "strip ([CHR 0x0A] @ ''SELECT 1'' @ [CHR 0x0A]) = ''SELECT 1''" by code_simp
  have h5: "strip ''SELECT 1'' = ''SELECT 1''" by code_simp
  have h6: "\<not> startswith ''SELECT 1'' ''```''" by code_simp
  have h7: "\<not> endswith ''SELECT 1'' ''```''" by code_simp
  have h8: "list_all py_isspace ''''" by simp
  have h9: "strip (''ite'' @ [CHR 0x0A] @ ''SELECT 1'' @ [CHR 0x0A]) = ''ite'' @ [CHR 0x0A] @ ''SELECT 1''"
    by code_simp
  have h10: "strip ''x'' = ''x''" by code_simp
  have h11: "\<not> startswith (''python'' @ [CHR 0x0A] @ ''SELECT 1'' @ [CHR 0x0A]) ''sql''" by code_simp
  have h12: "strip (''python'' @ [CHR 0x0A] @ ''SELECT 1'' @ [CHR 0x0A])
      = ''python'' @ [CHR 0x0A] @ ''SELECT 1''" by code_simp
  have a: "clean_sql_query (''  '' @ ''```sql'' @ ([CHR 0x0A] @ ''SELECT 1'' @ [CHR 0x0A]) @ ''```'' @ [CHR 0x0A]) = ''SELECT 1''"
    and b: "clean_sql_query (''  '' @ ''```'' @ ([CHR 0x0A] @ ''SELECT 1'' @ [CHR 0x0A]) @ ''```'' @ [CHR 0x0A]) = ''SELECT 1''"
    and c: "clean_sql_query ''SELECT 1'' = ''SELECT 1''"
    using clean_sql_query_fences [of "''SELECT 1''" "''  ''" "[CHR 0x0A]"
      "[CHR 0x0A] @ ''SELECT 1'' @ [CHR 0x0A]"] h1 h2 h3 h4 h5 h6 h7
    by simp_all
  have d: "clean_sql_query ('''' @ ''```sql'' @ (''ite'' @ [CHR 0x0A] @ ''SELECT 1'' @ [CHR 0x0A]) @ ''```'' @ '''')
       = ''ite'' @ [CHR 0x0A] @ ''SELECT 1''"
    using clean_sql_query_fences [of "''''" "''''" "''''"
      "''ite'' @ [CHR 0x0A] @ ''SELECT 1'' @ [CHR 0x0A]"] h8 h9
    by simp
  have e: "clean_sql_query ('''' @ ''```sql'' @ ''x'' @ ''```'' @ '''') = ''x''"
    using clean_sql_query_fences [of "''''" "''''" "''''" "''x''"] h8 h10
    by simp
  have f: "clean_sql_query ('''' @ ''```'' @ (''python'' @ [CHR 0x0A] @ ''SELECT 1'' @ [CHR 0x0A]) @ ''```'' @ '''')
       = ''python'' @ [CHR 0x0A] @ ''SELECT 1''"
    using clean_sql_query_fences [of "''''" "''''" "''''"
      "''python'' @ [CHR 0x0A] @ ''SELECT 1'' @ [CHR 0x0A]"] h8 h11 h12
    by simp
  from h1 h2 h3 h5 h6 h7 h8 h11 a b c d e f show ?thesis by blast
qed

text \<open>
  C5 as stated fails for a language tag other than \<open>sql\<close>: the tag \<open>python\<close> is
  not part of what is removed and stays at the head of the query text.
\<close>

theorem clean_sql_query_other_tag_counterexample:
  "clean_sql_query (''```python'' @ [CHR 0x0A] @ ''SELECT 1'' @ [CHR 0x0A] @ ''```'')
     = ''python'' @ [CHR 0x0A] @ ''SELECT 1''
   \<and> clean_sql_query (''```python'' @ [CHR 0x0A] @ ''SELECT 1'' @ [CHR 0x0A] @ ''```'')
     \<noteq> strip ([CHR 0x0A] @ ''SELECT 1'' @ [CHR 0x0A])
   \<and> clean_sql_query (''```python'' @ [CHR 0x0A] @ ''SELECT 1'' @ [CHR 0x0A] @ ''```'')
     \<noteq> [CHR 0x0A] @ ''SELECT 1'' @ [CHR 0x0A]"
  by code_simp

text \<open>
  C6, as the code has it. Sanitizing makes one pass, which removes at most one opening
  and one closing marker, so a second pass changes nothing exactly when the first result
  neither begins nor ends with \<open>```\<close>.
\<close>

theorem clean_sql_query_idempotent_iff:
  "clean_sql_query (clean_sql_query x) = clean_sql_query x \<longleftrightarrow>
   \<not> startswith (clean_sql_query x) ''```'' \<and> \<not> endswith (clean_sql_query x) ''```''"
  using clean_sql_noop [OF clean_sql_trimmed, of x]
    clean_sql_shorter [OF clean_sql_trimmed, of x] by auto

theorem clean_sql_query_idempotent_witness:
  "clean_sql_query (clean_sql_query (''```sql'' @ [CHR 0x0A] @ ''SELECT 1'' @ [CHR 0x0A] @ ''```''))
     = clean_sql_query (''```sql'' @ [CHR 0x0A] @ ''SELECT 1'' @ [CHR 0x0A] @ ''```'')"
proof -
  have "\<not> startswith (clean_sql_query (''```sql'' @ [CHR 0x0A] @ ''SELECT 1'' @ [CHR 0x0A] @ ''```'')) ''```''"
    by code_simp
  moreover have "\<not> endswith (clean_sql_query (''```sql'' @ [CHR 0x0A] @ ''SELECT 1'' @ [CHR 0x0A] @ ''```'')) ''```''"
    by code_simp
  ultimately show ?thesis
    using clean_sql_query_idempotent_iff
      [of "''```sql'' @ [CHR 0x0A] @ ''SELECT 1'' @ [CHR 0x0A] @ ''```''"] by blast
qed

text \<open>
  C6 as stated fails on a text fenced twice: the first pass leaves the inner fences, the
  second removes them.
\<close>

theorem clean_sql_query_idempotent_counterexample:
  "clean_sql_query (''```'' @ [CHR 0x0A] @ ''```sql'' @ [CHR 0x0A] @ ''SELECT 1'' @ [CHR 0x0A] @ ''```'' @ [CHR 0x0A] @ ''```'')
     = ''```sql'' @ [CHR 0x0A] @ ''SELECT 1'' @ [CHR 0x0A] @ ''```''
   \<and> clean_sql_query (clean_sql_query (''```'' @ [CHR 0x0A] @ ''```sql'' @ [CHR 0x0A] @ ''SELECT 1'' @ [CHR 0x0A] @ ''```'' @ [CHR 0x0A] @ ''```''))
     = ''SELECT 1''
   \<and> clean_sql_query (clean_sql_query (''```'' @ [CHR 0x0A] @ ''```sql'' @ [CHR 0x0A] @ ''SELECT 1'' @ [CHR 0x0A] @ ''```'' @ [CHR 0x0A] @ ''```''))
     \<noteq> clean_sql_query (''```'' @ [CHR 0x0A] @ ''```sql'' @ [CHR 0x0A] @ ''SELECT 1'' @ [CHR 0x0A] @ ''```'' @ [CHR 0x0A] @ ''```'')"
  by code_simp

text \<open>
  C10. The sanitized text is a contiguous piece of the input: the input is some removed
  front, then the sanitized text unchanged, then some removed back. In particular the
  sanitized text is never longer than the input.
\<close>

theorem clean_sql_query_sublist:
  "(\<exists>front back. x = front @ clean_sql_query x @ back)
   \<and> sublist (clean_sql_query x) x
   \<and> length (clean_sql_query x) \<le> length x"
proof -
  let ?s1 = "strip x"
  let ?s2 = "if startswith ?s1 ''```sql'' then strip (drop 6 ?s1)
             else if startswith ?s1 ''```'' then strip (drop 3 ?s1) else ?s1"
  have s1: "sublist ?s1 x" by (rule sublist_strip)
  have "sublist ?s2 ?s1" by (simp add: sublist_strip_drop)
  with s1 have s2: "sublist ?s2 x" by (rule sublist_trans [rotated])
  have "sublist (clean_sql_query x) ?s2"
    by (simp add: clean_sql_query_def Let_def sublist_strip_take)
  with s2 have sub: "sublist (clean_sql_query x) x"
    by (rule sublist_trans [rotated])
  then have "\<exists>front back. x = front @ clean_sql_query x @ back"
    by (simp add: sublist_def)
  with sub show ?thesis by (simp add: sublist_length_le)
qed

section \<open>Properties of the identifier derivation and of the store\<close>

lemma underscore_not_alnum: "\<not> re_alnum (CHR ''_'')"
  by (simp add: re_alnum_def)

lemma re_sub_idem: "re_sub_non_alnum (re_sub_non_alnum name) = re_sub_non_alnum name"
  by (simp add: re_sub_non_alnum_def underscore_not_alnum)

lemma re_sub_append: "re_sub_non_alnum (a @ b) = re_sub_non_alnum a @ re_sub_non_alnum b"
  by (simp add: re_sub_non_alnum_def)

lemma re_sub_prefix: "re_sub_non_alnum ''sheet_'' = ''sheet_''"
  by (simp add: re_sub_non_alnum_def re_alnum_def)

lemma s_not_digit: "\<not> py_isdigit (CHR ''s'')"
  by (simp add: py_isdigit_def)

lemma re_sub_chars: "list_all (\<lambda>c. re_alnum c \<or> c = CHR ''_'') (re_sub_non_alnum name)"
  by (induction name) (simp_all add: re_sub_non_alnum_def)

lemma clean_table_name_Nil: "clean_table_name [] = Inl IndexError"
  by (simp add: clean_table_name_def re_sub_non_alnum_def)

lemma clean_table_name_value:
  "name \<noteq> [] \<Longrightarrow>
   clean_table_name name =
     Inr (if py_isdigit (hd (re_sub_non_alnum name)) then ''sheet_'' @ re_sub_non_alnum name
          else re_sub_non_alnum name)"
  by (cases name) (simp_all add: clean_table_name_def re_sub_non_alnum_def)

lemma clean_table_name_nonempty:
  assumes "name \<noteq> []"
  shows "\<exists>ident. clean_table_name name = Inr ident \<and> ident \<noteq> []
           \<and> \<not> py_isdigit (hd ident)
           \<and> list_all (\<lambda>c. re_alnum c \<or> c = CHR ''_'') ident
           \<and> clean_table_name ident = Inr ident"
proof (cases "py_isdigit (hd (re_sub_non_alnum name))")
  case True
  let ?i = "''sheet_'' @ re_sub_non_alnum name"
  have v: "clean_table_name name = Inr ?i"
    using assms True by (simp add: clean_table_name_value)
  have r: "re_sub_non_alnum ?i = ?i"
    by (simp only: re_sub_append re_sub_prefix re_sub_idem)
  have h: "hd ?i = CHR ''s''" by simp
  have "clean_table_name ?i = Inr ?i"
    using clean_table_name_value [of ?i] s_not_digit by (simp only: r h) simp
  moreover have "list_all (\<lambda>c. re_alnum c \<or> c = CHR ''_'') ?i"
    using re_sub_chars [of "''sheet_'' @ name"] by (simp only: re_sub_append re_sub_prefix)
  ultimately show ?thesis using v s_not_digit by (simp only: h) simp
next
  case False
  let ?i = "re_sub_non_alnum name"
  have v: "clean_table_name name = Inr ?i"
    using assms False by (simp add: clean_table_name_value)
  have ne: "?i \<noteq> []" using assms by (simp add: re_sub_non_alnum_def)
  have "clean_table_name ?i = Inr ?i"
    using clean_table_name_value [OF ne] False by (simp add: re_sub_idem)
  then show ?thesis using v ne False re_sub_chars [of name] by simp
qed

text \<open>
  C4 at the empty display name: the substitution leaves the empty string, the test of
  its first character raises \<open>IndexError\<close>, and no identifier is derived. On every
  other name the derivation returns what C4 says (\<open>clean_table_name_nonempty\<close>).
\<close>

theorem clean_table_name_empty_raises:
  "clean_table_name '''' = Inl IndexError
   \<and> (\<forall>ident. clean_table_name '''' \<noteq> Inr ident)"
  by (simp add: clean_table_name_def re_sub_non_alnum_def)

lemma map_of_update_sheets:
  "map_of (AList.update k v al) = (map_of al)(k \<mapsto> v)"
  by (rule update_conv')

lemma add_sheet_registers:
  assumes "clean_table_name sheet_name = Inr ident"
  shows "\<exists>db'. add_sheet to_sql db sheet_name df = (fst (to_sql ident df (conn db)), db')
           \<and> map_of (sheets db') sheet_name =
               Some \<lparr>si_clean_name = ident, si_columns = map col_name (df_columns df), si_data = df\<rparr>
           \<and> (\<forall>other. other \<noteq> sheet_name \<longrightarrow> map_of (sheets db') other = map_of (sheets db) other)
           \<and> map fst (sheets db') =
               (if sheet_name \<in> fst ` set (sheets db) then map fst (sheets db)
                else map fst (sheets db) @ [sheet_name])
           \<and> conn db' = snd (to_sql ident df (conn db))"
  using assms
  by (simp add: add_sheet_def Let_def update_conv' update_keys split: prod.splits)

lemma add_sheet_replaces:
  assumes "clean_table_name sheet_name = Inr ident"
  shows "\<exists>db'. add_sheet replace_table db sheet_name df = (None, db')
           \<and> map_of (sheets db') sheet_name =
               Some \<lparr>si_clean_name = ident, si_columns = map col_name (df_columns df), si_data = df\<rparr>
           \<and> (\<forall>other. other \<noteq> sheet_name \<longrightarrow> map_of (sheets db') other = map_of (sheets db) other)
           \<and> conn db' ident = Some df
           \<and> (\<forall>t. t \<noteq> ident \<longrightarrow> conn db' t = conn db t)"
  using add_sheet_registers [OF assms, of replace_table db df]
  by (auto simp add: replace_table_def)

text \<open>
  C9 at the empty display name: \<open>add_sheet\<close> raises \<open>IndexError\<close> from the
  identifier derivation before it touches \<open>sheets\<close> or the backend, so nothing is
  registered and the store is as it was, whatever \<open>to_sql\<close> would have done. On a name
  that has an identifier the entry is written (\<open>add_sheet_registers\<close>), and when
  SQLite accepts the write the table of that identifier holds the frame
  (\<open>add_sheet_replaces\<close>).
\<close>

theorem add_sheet_empty_name_raises:
  "add_sheet to_sql db '''' df = (Some IndexError, db)
   \<and> fst (add_sheet to_sql db '''' df) \<noteq> None
   \<and> sheets (snd (add_sheet to_sql db '''' df)) = sheets db
   \<and> conn (snd (add_sheet to_sql db '''' df)) = conn db"
  by (simp add: add_sheet_def clean_table_name_def re_sub_non_alnum_def)

lemma add_sheet_collision:
  "clean_table_name ''a b'' = Inr ''a_b'' \<and> clean_table_name ''a_b'' = Inr ''a_b''"
  by code_simp

section \<open>Properties of the schema snapshot\<close>

lemma add_sheet_sales:
  "add_sheet replace_table init_database ''Sales'' df = (None, sales_store df)"
  by (simp add: add_sheet_def replace_table_def init_database_def sales_store_def
      clean_table_name_def re_sub_non_alnum_def re_alnum_def py_isdigit_def)

lemma column_type_object: "column_type ''object'' = ''TEXT''"
  by code_simp

lemma column_type_float64: "column_type ''float64'' = ''REAL''"
  by code_simp

lemma sales_schema_snapshot: "get_database_schema (rt_draw stub_runtime) (sales_store sales_df) w = (Inr sales_schema, w)"
  by (simp add: get_database_schema_def get_all_sheet_info_def sales_store_def sales_df_def
      stub_runtime_def series_sample_def dropna_def List.map_filter_def column_type_object column_type_float64 sales_schema_def)

lemma dropna_Nil: "dropna [] = []"
  by (simp add: dropna_def List.map_filter_def)

lemma series_sample_Nil:
  "0 < n \<Longrightarrow> series_sample draw n [] w =
     (Inl (ValueError ''a must be greater than 0 unless no samples are taken''), w)"
  by (simp add: series_sample_def)

lemma series_sample_short:
  "xs \<noteq> [] \<Longrightarrow> length xs < n \<Longrightarrow>
   series_sample draw n xs w =
     (Inl (ValueError (''Cannot take a larger sample than population when 'replace=False''
                       @ [CHR 0x27])), w)"
  by (simp add: series_sample_def)

lemma column_type_range:
  "column_type dtype_str \<in> {''INTEGER'', ''REAL'', ''DATETIME'', ''TEXT''}"
  by (simp add: column_type_def)

lemma series_sample_ok:
  "0 < n \<Longrightarrow> n \<le> length xs \<Longrightarrow>
   series_sample draw n xs w = (Inr (fst (draw n xs w)), snd (draw n xs w))"
  by (auto simp add: series_sample_def split: prod.splits)

lemma series_sample_raises:
  "length xs < n \<Longrightarrow> \<exists>msg. series_sample draw n xs w = (Inl (ValueError msg), w)"
  by (auto simp add: series_sample_def)

lemma sample_size_pos: "0 < min 3 (max 1 (n::nat))"
  by simp

lemma column_loop_ok:
  assumes "list_all (\<lambda>c. min 3 (max 1 n) \<le> length (dropna (col_values c))) cols"
  shows "\<exists>columns w'. column_loop draw n cols w = (Inr columns, w')
           \<and> map ci_name columns = map col_name cols
           \<and> map ci_type columns = map (\<lambda>c. column_type (col_dtype c)) cols
           \<and> list_all2 (\<lambda>info c. \<exists>w0. ci_sample_values info =
                 fst (draw (min 3 (max 1 n)) (dropna (col_values c)) w0)) columns cols"
  using assms
proof (induction cols arbitrary: w)
  case Nil
  then show ?case by simp
next
  case (Cons c cols)
  let ?k = "min 3 (max 1 n)"
  let ?w1 = "snd (draw ?k (dropna (col_values c)) w)"
  from Cons.prems have k: "?k \<le> length (dropna (col_values c))"
    and rest: "list_all (\<lambda>c. ?k \<le> length (dropna (col_values c))) cols"
    by simp_all
  have s: "series_sample draw ?k (dropna (col_values c)) w =
      (Inr (fst (draw ?k (dropna (col_values c)) w)), ?w1)"
    using series_sample_ok [OF sample_size_pos k] .
  from Cons.IH [OF rest, of ?w1] obtain columns w' where
    l: "column_loop draw n cols ?w1 = (Inr columns, w')"
    and n: "map ci_name columns = map col_name cols"
    and t: "map ci_type columns = map (\<lambda>c. column_type (col_dtype c)) cols"
    and v: "list_all2 (\<lambda>info c. \<exists>w0. ci_sample_values info =
                 fst (draw ?k (dropna (col_values c)) w0)) columns cols"
    by blast
  have "column_loop draw n (c # cols) w =
      (Inr (\<lparr>ci_name = col_name c, ci_type = column_type (col_dtype c),
             ci_sample_values = fst (draw ?k (dropna (col_values c)) w)\<rparr> # columns), w')"
    by (simp only: column_loop.simps s l prod.case sum.case)
  with n t v show ?case by auto
qed

lemma column_loop_short:
  assumes "\<not> list_all (\<lambda>c. min 3 (max 1 n) \<le> length (dropna (col_values c))) cols"
  shows "\<exists>msg w'. column_loop draw n cols w = (Inl (ValueError msg), w')"
  using assms
proof (induction cols arbitrary: w)
  case Nil
  then show ?case by simp
next
  case (Cons c cols)
  let ?k = "min 3 (max 1 n)"
  show ?case
  proof (cases "?k \<le> length (dropna (col_values c))")
    case True
    with Cons.prems have "\<not> list_all (\<lambda>c. ?k \<le> length (dropna (col_values c))) cols"
      by simp
    from Cons.IH [OF this] obtain msg w' where
      "column_loop draw n cols (snd (draw ?k (dropna (col_values c)) w)) = (Inl (ValueError msg), w')"
      by blast
    then show ?thesis
      using series_sample_ok [OF sample_size_pos True, of draw w]
      by (simp only: column_loop.simps prod.case sum.case) simp
  next
    case False
    then have "length (dropna (col_values c)) < ?k" by (simp only: not_le)
    then have "\<exists>msg. series_sample draw ?k (dropna (col_values c)) w = (Inl (ValueError msg), w)"
      by (rule series_sample_raises)
    then obtain msg where
      "series_sample draw ?k (dropna (col_values c)) w = (Inl (ValueError msg), w)" by blast
    then have "column_loop draw n (c # cols) w = (Inl (ValueError msg), w)"
      by (simp only: column_loop.simps prod.case sum.case)
    then show ?thesis by blast
  qed
qed

lemma update_fresh: "k \<notin> fst ` set al \<Longrightarrow> AList.update k v al = al @ [(k, v)]"
  by (induction al) auto

text \<open>
  What is asked of the random draw is asked only where \<open>sample\<close> calls it, on a size
  that the series can give: it returns that many values, all of them values of the series.
\<close>

lemma sampled_values:
  assumes draw_size: "\<And>n xs w. n \<le> length xs \<Longrightarrow> length (fst (draw n xs w)) = n"
    and draw_values: "\<And>n xs w. n \<le> length xs \<Longrightarrow> set (fst (draw n xs w)) \<subseteq> set xs"
    and ok: "list_all (\<lambda>c. k \<le> length (dropna (col_values c))) cols"
    and v: "list_all2 (\<lambda>info c. \<exists>w0. ci_sample_values info =
                 fst (draw k (dropna (col_values c)) w0)) columns cols"
    and k: "k \<le> 3"
  shows "list_all (\<lambda>info. length (ci_sample_values info) \<le> 3) columns
         \<and> list_all2 (\<lambda>info c. set (ci_sample_values info) \<subseteq> set (dropna (col_values c)))
              columns cols"
  using v ok
proof (induction columns cols rule: list_all2_induct)
  case Nil
  then show ?case by simp
next
  case (Cons info columns c cols)
  from Cons.prems have kc: "k \<le> length (dropna (col_values c))"
    and rest: "list_all (\<lambda>c. k \<le> length (dropna (col_values c))) cols" by simp_all
  from Cons.hyps(1) obtain w0 where
    sv: "ci_sample_values info = fst (draw k (dropna (col_values c)) w0)" by blast
  have "length (ci_sample_values info) \<le> 3"
    using draw_size [OF kc, of w0] k by (simp add: sv)
  moreover have "set (ci_sample_values info) \<subseteq> set (dropna (col_values c))"
    using draw_values [OF kc, of w0] by (simp add: sv)
  ultimately show ?case using Cons.IH [OF rest] by simp
qed

lemma sheet_loop_ok:
  assumes "list_all (\<lambda>sheet. samplable (si_data (snd sheet))) shs"
    and "distinct (map fst schema @ map fst shs)"
    and draw_size: "\<And>n xs w. n \<le> length xs \<Longrightarrow> length (fst (draw n xs w)) = n"
    and draw_values: "\<And>n xs w. n \<le> length xs \<Longrightarrow> set (fst (draw n xs w)) \<subseteq> set xs"
  shows "\<exists>new w'. sheet_loop draw shs schema w = (Inr (schema @ new), w')
           \<and> list_all2 snapshot_of new shs"
  using assms(1,2)
proof (induction shs arbitrary: schema w)
  case Nil
  then show ?case by simp
next
  case (Cons sh shs)
  obtain name info where sh: "sh = (name, info)" by (cases sh)
  let ?df = "si_data info"
  let ?k = "min 3 (max 1 (df_len ?df))"
  from Cons.prems(1) sh have sa: "samplable ?df"
    and rest: "list_all (\<lambda>sheet. samplable (si_data (snd sheet))) shs" by simp_all
  from sa have ok: "list_all (\<lambda>c. ?k \<le> length (dropna (col_values c))) (df_columns ?df)"
    by (simp add: samplable_def)
  from column_loop_ok [OF ok, of draw w] obtain columns w1 where
    cl: "column_loop draw (df_len ?df) (df_columns ?df) w = (Inr columns, w1)"
    and n: "map ci_name columns = map col_name (df_columns ?df)"
    and t: "map ci_type columns = map (\<lambda>c. column_type (col_dtype c)) (df_columns ?df)"
    and v: "list_all2 (\<lambda>info c. \<exists>w0. ci_sample_values info =
                 fst (draw ?k (dropna (col_values c)) w0)) columns (df_columns ?df)"
    by blast
  let ?entry = "\<lparr>ts_table_name = si_clean_name info, ts_columns = columns,
                 ts_row_count = df_len ?df\<rparr>"
  from Cons.prems(2) sh have fresh: "name \<notin> fst ` set schema" by auto
  have upd: "AList.update name ?entry schema = schema @ [(name, ?entry)]"
    using fresh by (rule update_fresh)
  from Cons.prems(2) sh have d: "distinct (map fst (schema @ [(name, ?entry)]) @ map fst shs)"
    by auto
  from Cons.IH [OF rest d, of w1] obtain new w' where
    sl: "sheet_loop draw shs (schema @ [(name, ?entry)]) w1 = (Inr ((schema @ [(name, ?entry)]) @ new), w')"
    and r: "list_all2 snapshot_of new shs" by blast
  have "sheet_loop draw (sh # shs) schema w = (Inr (schema @ ((name, ?entry) # new)), w')"
    unfolding sh by (simp only: sheet_loop.simps cl prod.case sum.case upd sl) simp
  moreover have "?k \<le> 3" by simp
  from sampled_values [OF draw_size draw_values ok v this]
  have "snapshot_of (name, ?entry) sh"
    using n t by (simp add: snapshot_of_def sh)
  ultimately show ?case using r by auto
qed

lemma get_database_schema_snapshot:
  assumes "list_all (\<lambda>sheet. samplable (si_data (snd sheet))) (sheets db)"
    and "distinct (map fst (sheets db))"
    and "\<And>n xs w. n \<le> length xs \<Longrightarrow> length (fst (draw n xs w)) = n"
    and "\<And>n xs w. n \<le> length xs \<Longrightarrow> set (fst (draw n xs w)) \<subseteq> set xs"
  shows "\<exists>schema w'. get_database_schema draw db w = (Inr schema, w')
           \<and> list_all2 snapshot_of schema (sheets db)"
  using sheet_loop_ok [of "sheets db" "[]" draw w] assms
  by (simp add: get_database_schema_def get_all_sheet_info_def)

lemma get_database_schema_snapshot_sales:
  "samplable sales_df \<and> distinct (map fst (sheets (sales_store sales_df)))
   \<and> (\<exists>schema w'. get_database_schema (\<lambda>n xs w. (take n xs, w)) (sales_store sales_df) (0::nat)
          = (Inr schema, w')
        \<and> list_all2 snapshot_of schema (sheets (sales_store sales_df)))"
proof -
  have a: "samplable sales_df"
    by (simp add: samplable_def sales_df_def dropna_def List.map_filter_def)
  have b: "distinct (map fst (sheets (sales_store sales_df)))"
    by (simp add: sales_store_def)
  have c: "list_all (\<lambda>sheet. samplable (si_data (snd sheet))) (sheets (sales_store sales_df))"
    using a by (simp add: sales_store_def)
  have d: "\<And>n (xs::cell list) (w::nat). n \<le> length xs \<Longrightarrow> length (fst (take n xs, w)) = n"
    by simp
  have e: "\<And>n (xs::cell list) (w::nat). n \<le> length xs \<Longrightarrow> set (fst (take n xs, w)) \<subseteq> set xs"
    by (auto dest: in_set_takeD)
  from get_database_schema_snapshot [of "sales_store sales_df" "\<lambda>n xs w. (take n xs, w)" 0, OF c b d e]
    a b show ?thesis by blast
qed

lemma add_sheet_distinct:
  "distinct (map fst (sheets db))
   \<Longrightarrow> distinct (map fst (sheets (snd (add_sheet to_sql db sheet_name df))))"
  by (auto simp add: add_sheet_def Let_def distinct_update split: sum.splits prod.splits)

text \<open>
  C3 on small tables. The sample size is \<open>min(3, max(1, len(df)))\<close>, taken from the
  rows of the table and not from the non-null values of the column. For the sheet
  \<open>Sales\<close> loaded with its header and no rows the size is 1 and the column is empty;
  loaded with three rows of which one has no amount, the size is 3 and the column
  \<open>amount\<close> has two values. In both cases \<open>sample\<close> raises \<open>ValueError\<close> and no
  snapshot is built.
\<close>

theorem get_database_schema_small_tables_raise:
  "add_sheet replace_table init_database ''Sales'' header_only_df
       = (None, sales_store header_only_df)
   \<and> get_database_schema draw (sales_store header_only_df) w =
       (Inl (ValueError ''a must be greater than 0 unless no samples are taken''), w)
   \<and> add_sheet replace_table init_database ''Sales'' missing_amount_df
       = (None, sales_store missing_amount_df)
   \<and> get_database_schema draw (sales_store missing_amount_df) w =
       (case draw 3 [TextCell ''East'', TextCell ''West'', TextCell ''North''] w of
          (ys, w') \<Rightarrow>
            (Inl (ValueError (''Cannot take a larger sample than population when 'replace=False''
                              @ [CHR 0x27])), w'))"
proof -
  have a: "get_database_schema draw (sales_store header_only_df) w =
       (Inl (ValueError ''a must be greater than 0 unless no samples are taken''), w)"
    by (simp add: get_database_schema_def get_all_sheet_info_def sales_store_def
        header_only_df_def dropna_Nil series_sample_Nil)
  have d1: "dropna [Some (TextCell ''East''), Some (TextCell ''West''), Some (TextCell ''North'')]
      = [TextCell ''East'', TextCell ''West'', TextCell ''North'']"
    by (simp add: dropna_def List.map_filter_def)
  have d2: "dropna [Some (NumCell 100), None, Some (NumCell 150)] = [NumCell 100, NumCell 150]"
    by (simp add: dropna_def List.map_filter_def)
  have b: "get_database_schema draw (sales_store missing_amount_df) w =
       (case draw 3 [TextCell ''East'', TextCell ''West'', TextCell ''North''] w of
          (ys, w') \<Rightarrow>
            (Inl (ValueError (''Cannot take a larger sample than population when 'replace=False''
                              @ [CHR 0x27])), w'))"
    by (simp add: get_database_schema_def get_all_sheet_info_def sales_store_def
        missing_amount_df_def d1 d2 series_sample_def split: prod.splits)
  show ?thesis using a b add_sheet_sales by simp
qed

section \<open>Properties of the providers\<close>

lemma sublist_indented_block:
  assumes "l \<in> set lines"
  shows "sublist l (indented_block lines)"
proof -
  from assms obtain pre post where "lines = pre @ l # post"
    by (auto dest: split_list)
  then have "indented_block lines =
      ([CHR 0x0A] @ concat (map (\<lambda>l. ''        '' @ l @ [CHR 0x0A]) pre) @ ''        '') @ l @
      ([CHR 0x0A] @ concat (map (\<lambda>l. ''        '' @ l @ [CHR 0x0A]) post) @ ''        '')"
    by (simp add: indented_block_def)
  then show ?thesis by (simp only: sublist_appendI)
qed

lemma response_template_embeds:
  "sublist question (response_template question result_text context_json)
   \<and> sublist result_text (response_template question result_text context_json)
   \<and> sublist context_json (response_template question result_text context_json)"
  by (simp add: response_template_def sublist_indented_block)

lemma response_template_inj:
  "response_template question r context_json = response_template question r' context_json
   \<Longrightarrow> r = r'"
  by (simp add: response_template_def indented_block_def)

lemma result_str_marker:
  "sql_result = None \<or> (\<exists>df. sql_result = Some df \<and> df_len df = 0)
   \<Longrightarrow> result_str to_string sql_result = ''No results found''"
  by (auto simp add: result_str_def df_empty_def)

lemma result_str_rendering:
  "\<not> df_empty df \<Longrightarrow> result_str to_string (Some df) = to_string df"
  by (simp add: result_str_def)

text \<open>
  C7. In each provider, when the result is absent or has no rows the text put in the
  results slot of the answer prompt is the marker \<open>No results found\<close>; when the result
  has at least one row and one column it is the rendering of the result. The prompt is
  the template around that text, it contains the text, and a template filled with any
  other text in that slot is a different prompt.
\<close>

theorem generate_response_prompt_results:
  "((sql_result = None \<or> (\<exists>df. sql_result = Some df \<and> df_len df = 0)) \<longrightarrow>
      result_str to_string sql_result = ''No results found'')
   \<and> (\<forall>df. sql_result = Some df \<and> df_len df \<noteq> 0 \<and> df_columns df \<noteq> [] \<longrightarrow>
      result_str to_string sql_result = to_string df)
   \<and> generate_response_prompt self to_string json_dumps question sql_result ctx =
       (case json_dumps ctx of
          Inl e \<Rightarrow> Inl e
        | Inr context_json \<Rightarrow>
            Inr (response_template question (result_str to_string sql_result) context_json))
   \<and> sublist (result_str to_string sql_result)
        (response_template question (result_str to_string sql_result) context_json)
   \<and> (\<forall>other. response_template question other context_json =
          response_template question (result_str to_string sql_result) context_json
        \<longrightarrow> other = result_str to_string sql_result)"
proof -
  have a: "(sql_result = None \<or> (\<exists>df. sql_result = Some df \<and> df_len df = 0)) \<longrightarrow>
      result_str to_string sql_result = ''No results found''"
    using result_str_marker [of sql_result to_string] by blast
  have b: "\<forall>df. sql_result = Some df \<and> df_len df \<noteq> 0 \<and> df_columns df \<noteq> [] \<longrightarrow>
      result_str to_string sql_result = to_string df"
    by (simp add: result_str_def df_empty_def)
  have c: "generate_response_prompt self to_string json_dumps question sql_result ctx =
       (case json_dumps ctx of
          Inl e \<Rightarrow> Inl e
        | Inr context_json \<Rightarrow>
            Inr (response_template question (result_str to_string sql_result) context_json))"
    by (simp add: generate_response_prompt_def)
  have d: "\<forall>other. response_template question other context_json =
          response_template question (result_str to_string sql_result) context_json
        \<longrightarrow> other = result_str to_string sql_result"
    using response_template_inj by blast
  from a b c d response_template_embeds show ?thesis by blast
qed

theorem generate_response_prompt_results_witness:
  "result_str (\<lambda>df. ''SUM(amount) 250'') None = ''No results found''
   \<and> df_len header_only_df = 0
   \<and> result_str (\<lambda>df. ''SUM(amount) 250'') (Some header_only_df) = ''No results found''
   \<and> df_len total_df \<noteq> 0 \<and> df_columns total_df \<noteq> []
   \<and> result_str (\<lambda>df. ''SUM(amount) 250'') (Some total_df) = ''SUM(amount) 250''"
proof -
  have h1: "df_len header_only_df = 0" by (simp add: header_only_df_def)
  have h2: "df_len total_df \<noteq> 0" and h3: "df_columns total_df \<noteq> []"
    by (simp_all add: total_df_def)
  have r1: "result_str (\<lambda>df. ''SUM(amount) 250'') None = ''No results found''"
    using generate_response_prompt_results [of None "\<lambda>df. ''SUM(amount) 250''"] by blast
  have r2: "result_str (\<lambda>df. ''SUM(amount) 250'') (Some header_only_df) = ''No results found''"
    using generate_response_prompt_results [of "Some header_only_df" "\<lambda>df. ''SUM(amount) 250''"] h1
    by blast
  have r3: "result_str (\<lambda>df. ''SUM(amount) 250'') (Some total_df) = ''SUM(amount) 250''"
    using generate_response_prompt_results [of "Some total_df" "\<lambda>df. ''SUM(amount) 250''"] h2 h3
    by blast
  from h1 h2 h3 r1 r2 r3 show ?thesis by blast
qed

text \<open>
  C8, as the code has it. Construction raises exactly when the explicit credential is the
  empty string, or is \<open>None\<close> while the provider's variable is unset or empty. The
  environment is read only when the explicit credential is \<open>None\<close>: with an explicit
  credential the outcome is the same in every environment, success for a non-empty one.
  Without an explicit credential, a non-empty variable makes construction succeed.
\<close>

theorem provider_init_credentials:
  "(isl (provider_init kind api_key environ) \<longleftrightarrow>
      api_key = Some [] \<or>
      (api_key = None \<and> (environ (env_var kind) = None \<or> environ (env_var kind) = Some [])))
   \<and> (isl (provider_init kind api_key environ) \<longrightarrow>
        provider_init kind api_key environ = Inl (ValueError (key_required kind)))
   \<and> provider_init kind (Some k) environ = provider_init kind (Some k) environ'
   \<and> (k \<noteq> [] \<longrightarrow>
        provider_init kind (Some k) environ = Inr \<lparr>pv_kind = kind, pv_api_key = k\<rparr>)
   \<and> (environ (env_var kind) = Some k \<and> k \<noteq> [] \<longrightarrow>
        provider_init kind None environ = Inr \<lparr>pv_kind = kind, pv_api_key = k\<rparr>)"
  by (auto simp add: provider_init_def Let_def split: option.splits)

theorem provider_init_credentials_witness:
  "isl (provider_init GeminiProvider (Some '''') [''GEMINI_API_KEY'' \<mapsto> ''env-key''])
   \<and> isl (provider_init GeminiProvider None Map.empty)
   \<and> isl (provider_init GeminiProvider None [''GEMINI_API_KEY'' \<mapsto> ''''])
   \<and> provider_init GeminiProvider None Map.empty =
        Inl (ValueError ''Gemini API key is required. Please provide it through the UI.'')
   \<and> provider_init GeminiProvider (Some ''ui-key'') Map.empty =
        Inr \<lparr>pv_kind = GeminiProvider, pv_api_key = ''ui-key''\<rparr>
   \<and> provider_init GeminiProvider (Some ''ui-key'') [''GEMINI_API_KEY'' \<mapsto> ''env-key''] =
        Inr \<lparr>pv_kind = GeminiProvider, pv_api_key = ''ui-key''\<rparr>
   \<and> provider_init GeminiProvider None [''GEMINI_API_KEY'' \<mapsto> ''env-key''] =
        Inr \<lparr>pv_kind = GeminiProvider, pv_api_key = ''env-key''\<rparr>"
  using provider_init_credentials [of GeminiProvider "Some ''''" "[''GEMINI_API_KEY'' \<mapsto> ''env-key'']"]
    provider_init_credentials [of GeminiProvider None Map.empty]
    provider_init_credentials [of GeminiProvider None "[''GEMINI_API_KEY'' \<mapsto> '''']"]
    provider_init_credentials [of GeminiProvider "Some ''ui-key''" Map.empty "''ui-key''"]
    provider_init_credentials [of GeminiProvider "Some ''ui-key''" "[''GEMINI_API_KEY'' \<mapsto> ''env-key'']" "''ui-key''"]
    provider_init_credentials [of GeminiProvider None "[''GEMINI_API_KEY'' \<mapsto> ''env-key'']" "''env-key''"]
  by simp

text \<open>
  C8 as stated fails when the explicit credential is the empty string, which is what an
  empty input field gives: the variable holds a non-empty credential, it is not read, and
  construction raises.
\<close>

theorem provider_init_empty_explicit_counterexample:
  "provider_init OpenAIProvider (Some '''') [''OPENAI_API_KEY'' \<mapsto> ''env-key''] =
     Inl (ValueError ''OpenAI API key is required. Please provide it through the UI.'')
   \<and> [''OPENAI_API_KEY'' \<mapsto> ''env-key''] (env_var OpenAIProvider) = Some ''env-key''
   \<and> ''env-key'' \<noteq> ''''
   \<and> Some '''' \<noteq> (None :: string option)"
  by (simp add: provider_init_def)

section \<open>Properties of the pipeline\<close>

lemma fix_prompt_embeds:
  "sublist sql (fix_prompt sql error_message schema_str)
   \<and> sublist error_message (fix_prompt sql error_message schema_str)
   \<and> sublist schema_str (fix_prompt sql error_message schema_str)"
  by (simp add: fix_prompt_def sublist_indented_block)

lemma query_after_failure:
  assumes "get_database_schema (rt_draw rt) (database self) w = (Inr schema, w1)"
    and "generate_sql (llm_provider self) question schema w1 = (Inr raw, w2)"
    and "execute_query (rt_read_sql_query rt) (database self) (clean_sql_query raw) = (Inl e, db1)"
  shows "query rt self question w =
    (case generate_sql (llm_provider self)
            (fix_prompt (clean_sql_query raw) (str_exn e) (rt_str rt schema)) schema w2 of
       (Inl e', w3) \<Rightarrow>
         (Inl e',
          [GenerateSql question schema, ExecuteQuery (clean_sql_query raw),
           GenerateSql (fix_prompt (clean_sql_query raw) (str_exn e) (rt_str rt schema)) schema],
          db1, w3)
     | (Inr fixed_raw, w3) \<Rightarrow>
         (case execute_query (rt_read_sql_query rt) db1 (clean_sql_query fixed_raw) of
            (Inl e2, db2) \<Rightarrow>
              (Inl e2,
               [GenerateSql question schema, ExecuteQuery (clean_sql_query raw),
                GenerateSql (fix_prompt (clean_sql_query raw) (str_exn e) (rt_str rt schema)) schema,
                ExecuteQuery (clean_sql_query fixed_raw)],
               db2, w3)
          | (Inr results, db2) \<Rightarrow>
              query_respond (llm_provider self) question schema
                [GenerateSql question schema, ExecuteQuery (clean_sql_query raw),
                 GenerateSql (fix_prompt (clean_sql_query raw) (str_exn e) (rt_str rt schema)) schema,
                 ExecuteQuery (clean_sql_query fixed_raw)]
                (clean_sql_query fixed_raw) results db2 w3))"
  by (simp add: query_def assms Let_def fix_sql_query_def split: prod.splits sum.splits)

lemma query_respond_calls:
  "fst (snd (query_respond prov question schema calls sql results db w)) =
     calls @ [GenerateResponse question (Some results)
                \<lparr>ctx_original_query = question, ctx_sql_query = sql, ctx_schema = schema\<rparr>]"
  by (simp add: query_respond_def Let_def split: prod.splits sum.splits)

lemma query_respond_result:
  "generate_response prov question (Some results)
      \<lparr>ctx_original_query = question, ctx_sql_query = sql, ctx_schema = schema\<rparr> w = (Inr answer, w')
   \<Longrightarrow> query_respond prov question schema calls sql results db w =
       (Inr (sql, answer),
        calls @ [GenerateResponse question (Some results)
                \<lparr>ctx_original_query = question, ctx_sql_query = sql, ctx_schema = schema\<rparr>],
        db, w')"
  by (simp add: query_respond_def Let_def)

lemma clean_bad: "clean_sql_query (''```sql'' @ [CHR 0x0A] @ ''SELECT SUM(total) FROM Sales'' @ [CHR 0x0A] @ ''```'')
   = ''SELECT SUM(total) FROM Sales''"
  by code_simp

lemma clean_good: "clean_sql_query (''```sql'' @ [CHR 0x0A] @ ''SELECT SUM(amount) FROM Sales'' @ [CHR 0x0A] @ ''```'')
   = ''SELECT SUM(amount) FROM Sales''"
  by code_simp

lemma clean_plain_total: "clean_sql_query ''SELECT SUM(total) FROM Sales'' = ''SELECT SUM(total) FROM Sales''"
  by code_simp

lemma clean_plain_totals: "clean_sql_query ''SELECT SUM(totals) FROM Sales'' = ''SELECT SUM(totals) FROM Sales''"
  by code_simp

lemma sales_store_conn: "sales_store df\<lparr>conn := conn (sales_store df)\<rparr> = sales_store df"
  by simp

text \<open>
  C1. Take a run of \<open>query\<close> in which the schema is built, the model returns a first
  text and the execution of its sanitized form fails with \<open>e\<close>. Then the calls begin
  with the question's generation, the failed execution and one more generation, on the
  repair prompt, which contains the failed query text, \<open>str(e)\<close> and the schema; there
  are exactly two generations in the run and at most two executions. If the repair
  generation returns a text, the only other call besides the answer's is the execution of
  its sanitized form; and if that execution succeeds and the answer is generated, the pair
  returned holds the sanitized repaired text.
\<close>

theorem query_repairs_once:
  assumes "get_database_schema (rt_draw rt) (database self) w = (Inr schema, w1)"
    and "generate_sql (llm_provider self) question schema w1 = (Inr raw, w2)"
    and "execute_query (rt_read_sql_query rt) (database self) (clean_sql_query raw) = (Inl e, db1)"
  shows
    "take 3 (fst (snd (query rt self question w))) =
       [GenerateSql question schema, ExecuteQuery (clean_sql_query raw),
        GenerateSql (fix_prompt (clean_sql_query raw) (str_exn e) (rt_str rt schema)) schema]
     \<and> length (filter is_GenerateSql (fst (snd (query rt self question w)))) = 2
     \<and> length (filter is_ExecuteQuery (fst (snd (query rt self question w)))) \<le> 2
     \<and> sublist (clean_sql_query raw) (fix_prompt (clean_sql_query raw) (str_exn e) (rt_str rt schema))
     \<and> sublist (str_exn e) (fix_prompt (clean_sql_query raw) (str_exn e) (rt_str rt schema))
     \<and> sublist (rt_str rt schema) (fix_prompt (clean_sql_query raw) (str_exn e) (rt_str rt schema))
     \<and> (\<forall>fixed_raw w3.
           generate_sql (llm_provider self)
             (fix_prompt (clean_sql_query raw) (str_exn e) (rt_str rt schema)) schema w2
             = (Inr fixed_raw, w3) \<longrightarrow>
           drop 3 (filter (\<lambda>c. \<not> is_GenerateResponse c) (fst (snd (query rt self question w))))
             = [ExecuteQuery (clean_sql_query fixed_raw)]
           \<and> (\<forall>results db2 answer w4.
                 execute_query (rt_read_sql_query rt) db1 (clean_sql_query fixed_raw)
                   = (Inr results, db2)
                 \<and> generate_response (llm_provider self) question (Some results)
                     \<lparr>ctx_original_query = question,
                      ctx_sql_query = clean_sql_query fixed_raw,
                      ctx_schema = schema\<rparr> w3 = (Inr answer, w4) \<longrightarrow>
                 query rt self question w =
                   (Inr (clean_sql_query fixed_raw, answer),
                    [GenerateSql question schema, ExecuteQuery (clean_sql_query raw),
                     GenerateSql (fix_prompt (clean_sql_query raw) (str_exn e) (rt_str rt schema))
                       schema,
                     ExecuteQuery (clean_sql_query fixed_raw),
                     GenerateResponse question (Some results)
                       \<lparr>ctx_original_query = question,
                        ctx_sql_query = clean_sql_query fixed_raw,
                        ctx_schema = schema\<rparr>],
                    db2, w4)))"
proof -
  let ?P = "fix_prompt (clean_sql_query raw) (str_exn e) (rt_str rt schema)"
  let ?c3 = "[GenerateSql question schema, ExecuteQuery (clean_sql_query raw),
              GenerateSql ?P schema]"
  note q = query_after_failure [OF assms]
  have calls: "\<exists>rest. fst (snd (query rt self question w)) = ?c3 @ rest
      \<and> filter is_GenerateSql rest = [] \<and> length (filter is_ExecuteQuery rest) \<le> 1"
    unfolding q
    by (auto simp add: query_respond_calls split: prod.splits sum.splits)
  then obtain rest where rest: "fst (snd (query rt self question w)) = ?c3 @ rest"
    and r1: "filter is_GenerateSql rest = []" and r2: "length (filter is_ExecuteQuery rest) \<le> 1"
    by blast
  have a: "take 3 (fst (snd (query rt self question w))) = ?c3"
    by (simp add: rest)
  have b: "length (filter is_GenerateSql (fst (snd (query rt self question w)))) = 2"
    by (simp add: rest r1)
  have c: "length (filter is_ExecuteQuery (fst (snd (query rt self question w)))) \<le> 2"
    using r2 by (simp add: rest)
  have d: "\<forall>fixed_raw w3.
           generate_sql (llm_provider self) ?P schema w2 = (Inr fixed_raw, w3) \<longrightarrow>
           drop 3 (filter (\<lambda>c. \<not> is_GenerateResponse c) (fst (snd (query rt self question w))))
             = [ExecuteQuery (clean_sql_query fixed_raw)]
           \<and> (\<forall>results db2 answer w4.
                 execute_query (rt_read_sql_query rt) db1 (clean_sql_query fixed_raw)
                   = (Inr results, db2)
                 \<and> generate_response (llm_provider self) question (Some results)
                     \<lparr>ctx_original_query = question,
                      ctx_sql_query = clean_sql_query fixed_raw,
                      ctx_schema = schema\<rparr> w3 = (Inr answer, w4) \<longrightarrow>
                 query rt self question w =
                   (Inr (clean_sql_query fixed_raw, answer),
                    ?c3 @ [ExecuteQuery (clean_sql_query fixed_raw),
                     GenerateResponse question (Some results)
                       \<lparr>ctx_original_query = question,
                        ctx_sql_query = clean_sql_query fixed_raw,
                        ctx_schema = schema\<rparr>],
                    db2, w4))"
    unfolding q
    by (auto simp add: query_respond_calls query_respond_result split: prod.splits sum.splits)
  from a b c d fix_prompt_embeds [of "clean_sql_query raw" "str_exn e" "rt_str rt schema"]
  show ?thesis by simp
qed

theorem query_repairs_once_witness:
  "get_database_schema (rt_draw stub_runtime)
      (database \<lparr>database = sales_store sales_df, llm_provider = repairing_provider\<rparr>) 0
     = (Inr sales_schema, 0)
   \<and> generate_sql (llm_provider \<lparr>database = sales_store sales_df, llm_provider = repairing_provider\<rparr>)
        ''What is the total amount?'' sales_schema 0
     = (Inr (''```sql'' @ [CHR 0x0A] @ ''SELECT SUM(total) FROM Sales'' @ [CHR 0x0A] @ ''```''), Suc 0)
   \<and> execute_query (rt_read_sql_query stub_runtime)
        (database \<lparr>database = sales_store sales_df, llm_provider = repairing_provider\<rparr>)
        (clean_sql_query (''```sql'' @ [CHR 0x0A] @ ''SELECT SUM(total) FROM Sales'' @ [CHR 0x0A] @ ''```''))
     = (Inl (Raised ''DatabaseError'' ''Execution failed on sql: SELECT SUM(total) FROM Sales''), sales_store sales_df)
   \<and> query stub_runtime \<lparr>database = sales_store sales_df, llm_provider = repairing_provider\<rparr>
        ''What is the total amount?'' 0
     = (Inr (''SELECT SUM(amount) FROM Sales'', ''The total amount is 250.''),
        [GenerateSql ''What is the total amount?'' sales_schema,
         ExecuteQuery ''SELECT SUM(total) FROM Sales'',
         GenerateSql (fix_prompt ''SELECT SUM(total) FROM Sales''
                        ''Execution failed on sql: SELECT SUM(total) FROM Sales'' ''Sales'')
           sales_schema,
         ExecuteQuery ''SELECT SUM(amount) FROM Sales'',
         GenerateResponse ''What is the total amount?'' (Some total_df)
           \<lparr>ctx_original_query = ''What is the total amount?'',
            ctx_sql_query = ''SELECT SUM(amount) FROM Sales'',
            ctx_schema = sales_schema\<rparr>],
        sales_store sales_df, Suc (Suc (Suc 0)))"
proof -
  let ?self = "\<lparr>database = sales_store sales_df, llm_provider = repairing_provider\<rparr>"
  let ?raw = "''```sql'' @ [CHR 0x0A] @ ''SELECT SUM(total) FROM Sales'' @ [CHR 0x0A] @ ''```''"
  let ?fixed = "''```sql'' @ [CHR 0x0A] @ ''SELECT SUM(amount) FROM Sales'' @ [CHR 0x0A] @ ''```''"
  let ?e = "Raised ''DatabaseError'' ''Execution failed on sql: SELECT SUM(total) FROM Sales''"
  let ?P = "fix_prompt (clean_sql_query ?raw) (str_exn ?e) (rt_str stub_runtime sales_schema)"
  let ?ctx = "\<lparr>ctx_original_query = ''What is the total amount?'',
               ctx_sql_query = clean_sql_query ?fixed, ctx_schema = sales_schema\<rparr>"
  have h1: "get_database_schema (rt_draw stub_runtime) (database ?self) 0 = (Inr sales_schema, 0)"
    by (simp add: sales_schema_snapshot)
  have h2: "generate_sql (llm_provider ?self) ''What is the total amount?'' sales_schema 0
      = (Inr ?raw, Suc 0)"
    by (simp add: repairing_provider_def)
  have h3: "execute_query (rt_read_sql_query stub_runtime) (database ?self) (clean_sql_query ?raw)
      = (Inl ?e, sales_store sales_df)"
    by (simp only: clean_bad) (simp add: execute_query_def stub_runtime_def stub_engine_def)
  have h4: "generate_sql (llm_provider ?self) ?P sales_schema (Suc 0) = (Inr ?fixed, Suc (Suc 0))"
    by (simp add: repairing_provider_def)
  have h5: "execute_query (rt_read_sql_query stub_runtime) (sales_store sales_df)
      (clean_sql_query ?fixed) = (Inr total_df, sales_store sales_df)"
    by (simp only: clean_good) (simp add: execute_query_def stub_runtime_def stub_engine_def)
  have h6: "generate_response (llm_provider ?self) ''What is the total amount?'' (Some total_df)
      ?ctx (Suc (Suc 0)) = (Inr ''The total amount is 250.'', Suc (Suc (Suc 0)))"
    by (simp add: repairing_provider_def)
  have p: "?P = fix_prompt ''SELECT SUM(total) FROM Sales''
                  ''Execution failed on sql: SELECT SUM(total) FROM Sales'' ''Sales''"
    by (simp only: clean_bad) (simp add: stub_runtime_def sales_schema_def)
  from query_repairs_once [OF h1 h2 h3] h4 h5 h6
  have "query stub_runtime ?self ''What is the total amount?'' 0 =
      (Inr (clean_sql_query ?fixed, ''The total amount is 250.''),
       [GenerateSql ''What is the total amount?'' sales_schema,
        ExecuteQuery (clean_sql_query ?raw),
        GenerateSql ?P sales_schema,
        ExecuteQuery (clean_sql_query ?fixed),
        GenerateResponse ''What is the total amount?'' (Some total_df) ?ctx],
       sales_store sales_df, Suc (Suc (Suc 0)))"
    by blast
  then have "query stub_runtime ?self ''What is the total amount?'' 0 =
      (Inr (''SELECT SUM(amount) FROM Sales'', ''The total amount is 250.''),
        [GenerateSql ''What is the total amount?'' sales_schema,
         ExecuteQuery ''SELECT SUM(total) FROM Sales'',
         GenerateSql (fix_prompt ''SELECT SUM(total) FROM Sales''
                        ''Execution failed on sql: SELECT SUM(total) FROM Sales'' ''Sales'')
           sales_schema,
         ExecuteQuery ''SELECT SUM(amount) FROM Sales'',
         GenerateResponse ''What is the total amount?'' (Some total_df)
           \<lparr>ctx_original_query = ''What is the total amount?'',
            ctx_sql_query = ''SELECT SUM(amount) FROM Sales'',
            ctx_schema = sales_schema\<rparr>],
        sales_store sales_df, Suc (Suc (Suc 0)))"
    unfolding p by (simp only: clean_bad clean_good)
  with h1 h2 h3 show ?thesis by (simp only: simp_thms)
qed

text \<open>
  C2, as the code has it. When the execution of the first sanitized text fails and the
  execution of the sanitized repaired text fails with \<open>e2\<close>, \<open>query\<close> ends by
  raising \<open>e2\<close> itself, the exception of the second failure as the backend raised it,
  with its class and its diagnostic: nothing is wrapped. The run has made exactly two
  executions and has not asked for an answer.
\<close>

theorem query_second_failure_propagates:
  assumes "get_database_schema (rt_draw rt) (database self) w = (Inr schema, w1)"
    and "generate_sql (llm_provider self) question schema w1 = (Inr raw, w2)"
    and "execute_query (rt_read_sql_query rt) (database self) (clean_sql_query raw) = (Inl e, db1)"
    and "generate_sql (llm_provider self)
           (fix_prompt (clean_sql_query raw) (str_exn e) (rt_str rt schema)) schema w2
           = (Inr fixed_raw, w3)"
    and "execute_query (rt_read_sql_query rt) db1 (clean_sql_query fixed_raw) = (Inl e2, db2)"
  shows
    "query rt self question w =
       (Inl e2,
        [GenerateSql question schema, ExecuteQuery (clean_sql_query raw),
         GenerateSql (fix_prompt (clean_sql_query raw) (str_exn e) (rt_str rt schema)) schema,
         ExecuteQuery (clean_sql_query fixed_raw)],
        db2, w3)
     \<and> isl (fst (query rt self question w))
     \<and> length (filter is_ExecuteQuery (fst (snd (query rt self question w)))) = 2
     \<and> filter is_GenerateResponse (fst (snd (query rt self question w))) = []
     \<and> exn_class (projl (fst (query rt self question w))) = exn_class e2
     \<and> str_exn (projl (fst (query rt self question w))) = str_exn e2"
  by (simp add: query_after_failure [OF assms(1-3)] assms(4,5))

theorem query_second_failure_propagates_witness:
  "get_database_schema (rt_draw stub_runtime)
      (database \<lparr>database = sales_store sales_df, llm_provider = stubborn_provider\<rparr>) 0
     = (Inr sales_schema, 0)
   \<and> generate_sql (llm_provider \<lparr>database = sales_store sales_df, llm_provider = stubborn_provider\<rparr>)
        ''What is the total amount?'' sales_schema 0
     = (Inr ''SELECT SUM(total) FROM Sales'', Suc 0)
   \<and> execute_query (rt_read_sql_query stub_runtime)
        (database \<lparr>database = sales_store sales_df, llm_provider = stubborn_provider\<rparr>)
        (clean_sql_query ''SELECT SUM(total) FROM Sales'')
     = (Inl (Raised ''DatabaseError'' ''Execution failed on sql: SELECT SUM(total) FROM Sales''), sales_store sales_df)
   \<and> generate_sql (llm_provider \<lparr>database = sales_store sales_df, llm_provider = stubborn_provider\<rparr>)
        (fix_prompt (clean_sql_query ''SELECT SUM(total) FROM Sales'')
           (str_exn (Raised ''DatabaseError'' ''Execution failed on sql: SELECT SUM(total) FROM Sales''))
           (rt_str stub_runtime sales_schema))
        sales_schema (Suc 0)
     = (Inr ''SELECT SUM(totals) FROM Sales'', Suc (Suc 0))
   \<and> execute_query (rt_read_sql_query stub_runtime) (sales_store sales_df)
        (clean_sql_query ''SELECT SUM(totals) FROM Sales'')
     = (Inl (Raised ''DatabaseError'' ''Execution failed on sql: SELECT SUM(totals) FROM Sales''), sales_store sales_df)
   \<and> query stub_runtime \<lparr>database = sales_store sales_df, llm_provider = stubborn_provider\<rparr>
        ''What is the total amount?'' 0
     = (Inl (Raised ''DatabaseError'' ''Execution failed on sql: SELECT SUM(totals) FROM Sales''),
        [GenerateSql ''What is the total amount?'' sales_schema,
         ExecuteQuery ''SELECT SUM(total) FROM Sales'',
         GenerateSql (fix_prompt ''SELECT SUM(total) FROM Sales''
                        ''Execution failed on sql: SELECT SUM(total) FROM Sales'' ''Sales'')
           sales_schema,
         ExecuteQuery ''SELECT SUM(totals) FROM Sales''],
        sales_store sales_df, Suc (Suc 0))"
proof -
  let ?self = "\<lparr>database = sales_store sales_df, llm_provider = stubborn_provider\<rparr>"
  let ?e = "Raised ''DatabaseError'' ''Execution failed on sql: SELECT SUM(total) FROM Sales''"
  let ?P = "fix_prompt (clean_sql_query ''SELECT SUM(total) FROM Sales'') (str_exn ?e)
              (rt_str stub_runtime sales_schema)"
  have h1: "get_database_schema (rt_draw stub_runtime) (database ?self) 0 = (Inr sales_schema, 0)"
    by (simp add: sales_schema_snapshot)
  have h2: "generate_sql (llm_provider ?self) ''What is the total amount?'' sales_schema 0
      = (Inr ''SELECT SUM(total) FROM Sales'', Suc 0)"
    by (simp add: stubborn_provider_def)
  have h3: "execute_query (rt_read_sql_query stub_runtime) (database ?self)
      (clean_sql_query ''SELECT SUM(total) FROM Sales'') = (Inl ?e, sales_store sales_df)"
    by (simp only: clean_plain_total) (simp add: execute_query_def stub_runtime_def stub_engine_def)
  have h4: "generate_sql (llm_provider ?self) ?P sales_schema (Suc 0)
      = (Inr ''SELECT SUM(totals) FROM Sales'', Suc (Suc 0))"
    by (simp add: stubborn_provider_def)
  have h5: "execute_query (rt_read_sql_query stub_runtime) (sales_store sales_df)
      (clean_sql_query ''SELECT SUM(totals) FROM Sales'')
      = (Inl (Raised ''DatabaseError'' ''Execution failed on sql: SELECT SUM(totals) FROM Sales''), sales_store sales_df)"
    by (simp only: clean_plain_totals) (simp add: execute_query_def stub_runtime_def stub_engine_def)
  have p: "?P = fix_prompt ''SELECT SUM(total) FROM Sales''
                  ''Execution failed on sql: SELECT SUM(total) FROM Sales'' ''Sales''"
    by (simp only: clean_plain_total) (simp add: stub_runtime_def sales_schema_def)
  from query_second_failure_propagates [OF h1 h2 h3 h4 h5, THEN conjunct1]
  have "query stub_runtime ?self ''What is the total amount?'' 0
     = (Inl (Raised ''DatabaseError'' ''Execution failed on sql: SELECT SUM(totals) FROM Sales''),
        [GenerateSql ''What is the total amount?'' sales_schema,
         ExecuteQuery ''SELECT SUM(total) FROM Sales'',
         GenerateSql (fix_prompt ''SELECT SUM(total) FROM Sales''
                        ''Execution failed on sql: SELECT SUM(total) FROM Sales'' ''Sales'')
           sales_schema,
         ExecuteQuery ''SELECT SUM(totals) FROM Sales''],
        sales_store sales_df, Suc (Suc 0))"
    unfolding p by (simp only: clean_plain_total clean_plain_totals)
  with h1 h2 h3 h4 h5 show ?thesis by (simp only: simp_thms)
qed

lemma stubborn_run:
  "query stub_runtime \<lparr>database = sales_store sales_df, llm_provider = stubborn_provider\<rparr>
        ''What is the total amount?'' 0
     = (Inl (Raised ''DatabaseError'' ''Execution failed on sql: SELECT SUM(totals) FROM Sales''),
        [GenerateSql ''What is the total amount?'' sales_schema,
         ExecuteQuery ''SELECT SUM(total) FROM Sales'',
         GenerateSql (fix_prompt ''SELECT SUM(total) FROM Sales''
                        ''Execution failed on sql: SELECT SUM(total) FROM Sales'' ''Sales'')
           sales_schema,
         ExecuteQuery ''SELECT SUM(totals) FROM Sales''],
        sales_store sales_df, Suc (Suc 0))"
proof -
  let ?self = "\<lparr>database = sales_store sales_df, llm_provider = stubborn_provider\<rparr>"
  let ?e = "Raised ''DatabaseError'' ''Execution failed on sql: SELECT SUM(total) FROM Sales''"
  have h1: "get_database_schema (rt_draw stub_runtime) (database ?self) 0 = (Inr sales_schema, 0)"
    by (simp add: sales_schema_snapshot)
  have h2: "generate_sql (llm_provider ?self) ''What is the total amount?'' sales_schema 0
      = (Inr ''SELECT SUM(total) FROM Sales'', Suc 0)"
    by (simp add: stubborn_provider_def)
  have h3: "execute_query (rt_read_sql_query stub_runtime) (database ?self)
      (clean_sql_query ''SELECT SUM(total) FROM Sales'') = (Inl ?e, sales_store sales_df)"
    by (simp only: clean_plain_total) (simp add: execute_query_def stub_runtime_def stub_engine_def)
  have h4: "generate_sql (llm_provider ?self)
      (fix_prompt ''SELECT SUM(total) FROM Sales''
         ''Execution failed on sql: SELECT SUM(total) FROM Sales'' ''Sales'')
      sales_schema (Suc 0)
      = (Inr ''SELECT SUM(totals) FROM Sales'', Suc (Suc 0))"
    by (simp add: stubborn_provider_def)
  have h5: "execute_query (rt_read_sql_query stub_runtime) (sales_store sales_df)
      ''SELECT SUM(totals) FROM Sales''
      = (Inl (Raised ''DatabaseError'' ''Execution failed on sql: SELECT SUM(totals) FROM Sales''),
         sales_store sales_df)"
    by (simp add: execute_query_def stub_runtime_def stub_engine_def)
  have p: "rt_str stub_runtime sales_schema = ''Sales''"
    by (simp add: stub_runtime_def sales_schema_def)
  show ?thesis
    unfolding query_after_failure [OF h1 h2 h3]
    by (simp only: clean_plain_total clean_plain_totals str_exn.simps p h4 h5 prod.case sum.case)
qed

text \<open>
  C2 as stated fails on the class of what is raised. The program has no
  \<open>QueryExecutionError\<close> and converts no exception: when SQLite refuses both queries,
  what leaves \<open>query\<close> is the \<open>DatabaseError\<close> that pandas raised for the second.
\<close>

theorem query_second_failure_class_counterexample:
  "fst (query stub_runtime \<lparr>database = sales_store sales_df, llm_provider = stubborn_provider\<rparr>
         ''What is the total amount?'' 0)
     = Inl (Raised ''DatabaseError'' ''Execution failed on sql: SELECT SUM(totals) FROM Sales'')
   \<and> exn_class (Raised ''DatabaseError'' ''Execution failed on sql: SELECT SUM(totals) FROM Sales'')
     = ''DatabaseError''
   \<and> exn_class (Raised ''DatabaseError'' ''Execution failed on sql: SELECT SUM(totals) FROM Sales'')
     \<noteq> ''QueryExecutionError''"
  by (simp add: stubborn_run)

end
